theory Spec2Isabelle
  imports
    Main
    "HOL-Library.Char_ord"
    "HOL-Library.List_Lexorder"
    "HOL-Library.Multiset"
    "HOL-Library.Sublist"
begin

section \<open>The MIRT pipeline driver\<close>

text \<open>
  A model of the functions of \<^verbatim>\<open>start_mirt_pipeline.py\<close>. The script is Python 2: a
  \<^verbatim>\<open>str\<close> is a byte string, modelled as \<^typ>\<open>string\<close> (a list of 8-bit characters), and
  integers are unbounded, modelled as \<^typ>\<open>int\<close>. The statements the module runs when it is
  imported (the imports and the CPU affinity mask) are not modelled.
\<close>

subsection \<open>Data: the parsed namespace and the run's arguments\<close>

text \<open>
  \<^verbatim>\<open>parser.parse_args\<close> returns a namespace with one attribute per declared option;
  \<^verbatim>\<open>get_command_line_arguments\<close> then adds the attribute \<^verbatim>\<open>datetime\<close>. The arguments
  are passed to every function of the script and are never assigned again after that.
\<close>

record namespace =
  generate :: bool
  train :: bool
  visualize :: bool
  test :: bool
  data_file :: string
  abilities :: int
  num_students :: int
  num_problems :: int
  time :: bool
  workers :: int
  num_epochs :: int
  model_directory :: string
  model :: string

record arguments = namespace +
  datetime :: string

subsection \<open>Formatting integers: \<^verbatim>\<open>str(n)\<close> and \<^verbatim>\<open>"%s" % n\<close>, \<^verbatim>\<open>"%d" % n\<close>\<close>

definition digit_char :: "nat \<Rightarrow> char" where
  "digit_char d = ''0123456789'' ! d"

fun str_nat :: "nat \<Rightarrow> string" where
  "str_nat n = (if n < 10 then [digit_char n] else str_nat (n div 10) @ [digit_char (n mod 10)])"

declare str_nat.simps [simp del]

definition str_int :: "int \<Rightarrow> string" where
  "str_int i = (if i < 0 then CHR ''-'' # str_nat (nat (- i)) else str_nat (nat i))"

subsection \<open>\<^verbatim>\<open>gen_param_str\<close>\<close>

text \<open>
  \<^verbatim>\<open>time_str = 'time' if arguments.time else 'no_time'\<close>
  \<^verbatim>\<open>return "%s_%s_%s" % (arguments.abilities, time_str, arguments.datetime)\<close>
\<close>

definition gen_param_str :: "arguments \<Rightarrow> string" where
  "gen_param_str a =
     (let time_str = (if time a then ''time'' else ''no_time'')
      in str_int (abilities a) @ ''_'' @ time_str @ ''_'' @ datetime a)"

subsection \<open>Failures, the store and the observable events\<close>

text \<open>
  The script has no \<^verbatim>\<open>try\<close> around any stage: whatever a call raises ends the run. The
  exceptions the script's own statements and the standard library raise are named; an
  exception of a collaborator is \<open>Raised\<close> with its name.
\<close>

datatype error = IndexError | OSError | IOError | Shutil_Error | SystemExit int | Raised string

text \<open>
  The store. A path names a file through \<open>file_id\<close>: two paths name the same file
  (another spelling of the path, a link) exactly when they have the same identity, which
  is what \<^verbatim>\<open>os.path.samefile\<close> compares; the identity of a path that names no file yet is
  that of the file that creating it makes. The store holds the bytes of every readable
  regular file and the set of directories, both by identity. Other kinds of file (pipes,
  devices) are not in the store.
\<close>

type_synonym ident = string

record world =
  file_id :: "string \<Rightarrow> ident"
  files :: "ident \<rightharpoonup> string"
  dirs :: "ident set"

text \<open>The points of the curve returned by the evaluator are opaque to the script.\<close>

typedecl roc_point

text \<open>
  \<^verbatim>\<open>model_training_util.mkdir_p\<close> is called once with a list of paths and once with a
  single path.
\<close>

datatype mkdir_arg = Path_str string | Path_list "string list"

text \<open>
  Everything the script does to the outside, in the order it does it: what it prints on
  standard output (\<open>Print s\<close> is the statement \<^verbatim>\<open>print s\<close>), and each call of a library
  function or collaborator, with its arguments. A call is recorded when it is made,
  whether or not it then raises.
\<close>

datatype event =
    Print string
  | Print_help
  | Generate_responses_run arguments
  | Mkdir_p mkdir_arg
  | Sep_into_train_and_test arguments
  | Run_programmatically "string list"
  | Listdir string
  | Copyfile string string
  | Load_and_simulate_assessment string string string
  | Show_roc "(string \<times> roc_point list) list"
  | Show_exercises string
  | Adaptive_pretest_main string

text \<open>
  The modules \<^verbatim>\<open>mirt\<close> and \<^verbatim>\<open>train_util\<close>, the argument parser, the clock and the
  operating system are not part of the script: they are parameters. A collaborator is
  any function that changes the store and returns or raises; it does not assign to the
  arguments it is given.
  \<^item> \<open>parse_args\<close> is \<^verbatim>\<open>parser.parse_args\<close> for the parser the script declares; it raises
    \<^verbatim>\<open>SystemExit\<close> on a command line it rejects (what argparse itself prints then is not
    recorded);
  \<^item> \<open>datetime_now\<close> is \<^verbatim>\<open>str(datetime.datetime.now())\<close> at the one place it is read;
  \<^item> \<open>os_listdir\<close> is \<^verbatim>\<open>os.listdir\<close>: the entry names of a directory in the order the
    operating system reports them, or \<^verbatim>\<open>OSError\<close>;
  \<^item> \<open>open_wb\<close> tells whether \<^verbatim>\<open>open(path, 'wb')\<close> succeeds in a store;
  \<^item> \<open>load_and_simulate_assessment\<close> returns the curve as the list that the script's
    comprehension \<^verbatim>\<open>[r for r in roc_curve]\<close> makes of it.
\<close>

record env =
  parse_args :: "string list \<Rightarrow> error + namespace"
  sys_argv :: "string list"
  datetime_now :: string
  os_listdir :: "string \<Rightarrow> world \<Rightarrow> error + string list"
  open_wb :: "string \<Rightarrow> world \<Rightarrow> bool"
  generate_responses_run :: "arguments \<Rightarrow> world \<Rightarrow> (error + unit) \<times> world"
  mkdir_p :: "mkdir_arg \<Rightarrow> world \<Rightarrow> (error + unit) \<times> world"
  sep_into_train_and_test :: "arguments \<Rightarrow> world \<Rightarrow> (error + unit) \<times> world"
  run_programmatically :: "string list \<Rightarrow> world \<Rightarrow> (error + unit) \<times> world"
  load_and_simulate_assessment ::
    "string \<Rightarrow> string \<Rightarrow> string \<Rightarrow> world \<Rightarrow> (error + roc_point list) \<times> world"
  show_roc :: "(string \<times> roc_point list) list \<Rightarrow> world \<Rightarrow> (error + unit) \<times> world"
  show_exercises :: "string \<Rightarrow> world \<Rightarrow> (error + unit) \<times> world"
  adaptive_pretest_main :: "string \<Rightarrow> world \<Rightarrow> (error + unit) \<times> world"

subsection \<open>Running statements in sequence\<close>

text \<open>
  A piece of the script started in a store ends with a value or an exception, in a final
  store, having produced events.
\<close>

record 'a run =
  outcome :: "error + 'a"
  final :: world
  events :: "event list"

type_synonym 'a prog = "world \<Rightarrow> 'a run"

definition returns :: "'a \<Rightarrow> 'a prog" where
  "returns x w = \<lparr>outcome = Inr x, final = w, events = []\<rparr>"

definition raise :: "error \<Rightarrow> 'a prog" where
  "raise e w = \<lparr>outcome = Inl e, final = w, events = []\<rparr>"

definition emit :: "event \<Rightarrow> unit prog" where
  "emit ev w = \<lparr>outcome = Inr (), final = w, events = [ev]\<rparr>"

definition call :: "event \<Rightarrow> (world \<Rightarrow> (error + 'a) \<times> world) \<Rightarrow> 'a prog" where
  "call ev f w = (case f w of (r, w') \<Rightarrow> \<lparr>outcome = r, final = w', events = [ev]\<rparr>)"

text \<open>An exception in the first statement skips the rest.\<close>

definition and_then :: "'a prog \<Rightarrow> ('a \<Rightarrow> 'b prog) \<Rightarrow> 'b prog" where
  "and_then m k w =
     (let r = m w in
      case outcome r of
        Inl e \<Rightarrow> \<lparr>outcome = Inl e, final = final r, events = events r\<rparr>
      | Inr x \<Rightarrow>
          (let r' = k x (final r)
           in \<lparr>outcome = outcome r', final = final r', events = events r @ events r'\<rparr>))"

subsection \<open>Standard library\<close>

text \<open>
  \<^verbatim>\<open>s.split(sep)\<close> for a one-character separator: cuts at every occurrence and keeps
  empty pieces; the result is never empty.
\<close>

fun split :: "char \<Rightarrow> string \<Rightarrow> string list" where
  "split sep [] = [[]]"
| "split sep (c # cs) =
     (if c = sep then [] # split sep cs
      else (case split sep cs of [] \<Rightarrow> [[c]] | p # ps \<Rightarrow> (c # p) # ps))"

text \<open>\<^verbatim>\<open>xs[-1]\<close>: the last element, \<^verbatim>\<open>IndexError\<close> on an empty list.\<close>

definition index_last :: "'a list \<Rightarrow> error + 'a" where
  "index_last xs = (case xs of [] \<Rightarrow> Inl IndexError | _ \<Rightarrow> Inr (last xs))"

text \<open>
  \<^verbatim>\<open>shutil.copyfile(src, dst)\<close> of Python 2.7 on a system with \<^verbatim>\<open>os.path.samefile\<close>, in
  the order of its statements: \<^verbatim>\<open>shutil.Error\<close> when \<open>src\<close> and \<open>dst\<close> both exist and are the
  same file (\<^verbatim>\<open>os.stat\<close> of both succeeds and gives the same identity); \<^verbatim>\<open>IOError\<close> when
  \<open>src\<close> cannot be opened for reading; \<^verbatim>\<open>IOError\<close> when \<open>dst\<close> cannot be opened for writing
  (a directory, or refused by the system); otherwise the file that \<open>dst\<close> names holds the
  bytes of \<open>src\<close>. Reading and writing do not fail once both files are open.
\<close>

definition shutil_copyfile :: "env \<Rightarrow> string \<Rightarrow> string \<Rightarrow> unit prog" where
  "shutil_copyfile env src dst =
     call (Copyfile src dst)
       (\<lambda>w. let s = file_id w src; d = file_id w dst
            in if s = d \<and> (files w s \<noteq> None \<or> s \<in> dirs w) then (Inl Shutil_Error, w)
               else (case files w s of
                       None \<Rightarrow> (Inl IOError, w)
                     | Some bytes \<Rightarrow>
                         if d \<in> dirs w \<or> \<not> open_wb env dst w then (Inl IOError, w)
                         else (Inr (), w\<lparr>files := (files w)(d \<mapsto> bytes)\<rparr>)))"

subsection \<open>\<^verbatim>\<open>get_command_line_arguments\<close>\<close>

definition usage_message :: string where
  "usage_message =
     ''\<newline>Must specify at least one task '' @ ''(--generate, --train, --visualize, --test).\<newline>''"

text \<open>
  \<^verbatim>\<open>if arguments:\<close> holds for a non-empty list only; otherwise \<^verbatim>\<open>parse_args()\<close> reads
  \<^verbatim>\<open>sys.argv[1:]\<close>. After the parser, only the four stage flags are looked at.
\<close>

definition get_command_line_arguments :: "env \<Rightarrow> string list option \<Rightarrow> arguments prog" where
  "get_command_line_arguments env arguments =
     (let argv = (case arguments of Some (x # xs) \<Rightarrow> x # xs | _ \<Rightarrow> drop 1 (sys_argv env))
      in case parse_args env argv of
           Inl e \<Rightarrow> raise e
         | Inr ns \<Rightarrow>
             and_then
               (if \<not> (generate ns \<or> train ns \<or> visualize ns \<or> test ns)
                then and_then (emit (Print usage_message)) (\<lambda>_. emit Print_help)
                else returns ())
               (\<lambda>_. returns (namespace.extend ns (arguments.fields (datetime_now env)))))"

subsection \<open>\<^verbatim>\<open>get_latest_parameter_file_name\<close> and \<^verbatim>\<open>save_model\<close>\<close>

text \<open>
  The sort key \<^verbatim>\<open>lambda fname: fname.split('_')[-1]\<close>: the last piece of the name, which
  always exists since a split is never empty.
\<close>

definition sort_key_fn :: "string \<Rightarrow> string" where
  "sort_key_fn fname = last (split CHR ''_'' fname)"

text \<open>
  \<^verbatim>\<open>list.sort(key=...)\<close> is ascending and stable, and Python 2 compares byte strings
  lexicographically by byte value, a proper prefix first: this is \<^const>\<open>sort_key\<close> with the
  order on \<^typ>\<open>string\<close>.
\<close>

definition get_latest_parameter_file_name :: "env \<Rightarrow> arguments \<Rightarrow> string prog" where
  "get_latest_parameter_file_name env a =
     (let params = gen_param_str a;
          path = model_directory a @ params @ ''/''
      in and_then (call (Listdir path) (\<lambda>w. (os_listdir env path w, w)))
           (\<lambda>npz_files.
              case index_last (sort_key sort_key_fn npz_files) of
                Inl e \<Rightarrow> raise e
              | Inr name \<Rightarrow> returns (path @ name)))"

definition save_model :: "env \<Rightarrow> arguments \<Rightarrow> unit prog" where
  "save_model env a =
     and_then (get_latest_parameter_file_name env a)
       (\<lambda>latest_model.
          and_then (emit (Print (''Saving model to '' @ model a)))
            (\<lambda>_. shutil_copyfile env latest_model (model a)))"

subsection \<open>\<^verbatim>\<open>make_necessary_directories\<close>, \<^verbatim>\<open>generate_model_with_parameters\<close>\<close>

definition make_necessary_directories :: "env \<Rightarrow> arguments \<Rightarrow> unit prog" where
  "make_necessary_directories env a =
     (let roc_dir = model_directory a @ ''rocs/''
      in call (Mkdir_p (Path_list [roc_dir])) (mkdir_p env (Path_list [roc_dir])))"

text \<open>The list \<^verbatim>\<open>mirt_train_params\<close>, with \<^verbatim>\<open>'-z'\<close> appended when \<^verbatim>\<open>arguments.time\<close>.\<close>

definition mirt_train_params :: "arguments \<Rightarrow> string \<Rightarrow> string list" where
  "mirt_train_params a out_dir_name =
     [''-a'', str_int (abilities a),
      ''-w'', str_int (workers a),
      ''-n'', str_int (num_epochs a),
      ''-f'', model_directory a @ ''train.responses'',
      ''-o'', out_dir_name]
     @ (if time a then [''-z''] else [])"

definition generate_model_with_parameters :: "env \<Rightarrow> arguments \<Rightarrow> unit prog" where
  "generate_model_with_parameters env a =
     (let param_str = gen_param_str a;
          out_dir_name = model_directory a @ param_str @ ''/''
      in and_then (call (Mkdir_p (Path_str out_dir_name)) (mkdir_p env (Path_str out_dir_name)))
           (\<lambda>_. call (Run_programmatically (mirt_train_params a out_dir_name))
                   (run_programmatically env (mirt_train_params a out_dir_name))))"

subsection \<open>\<^verbatim>\<open>generate_roc_curve_from_model\<close>\<close>

definition generate_roc_curve_from_model :: "env \<Rightarrow> arguments \<Rightarrow> roc_point list prog" where
  "generate_roc_curve_from_model env a =
     (let roc_dir = model_directory a @ ''rocs/'';
          roc_file = roc_dir @ datetime a;
          test_file = model_directory a @ ''test.responses''
      in call (Load_and_simulate_assessment (model a) roc_file test_file)
           (load_and_simulate_assessment env (model a) roc_file test_file))"

subsection \<open>\<^verbatim>\<open>run_with_arguments\<close> and \<^verbatim>\<open>main\<close>\<close>

text \<open>The bodies of the four \<^verbatim>\<open>if\<close> statements of \<^verbatim>\<open>run_with_arguments\<close>, in order.\<close>

definition generate_stage :: "env \<Rightarrow> arguments \<Rightarrow> unit prog" where
  "generate_stage env a =
     and_then (emit (Print ''Generating Responses''))
       (\<lambda>_. and_then (call (Generate_responses_run a) (generate_responses_run env a))
          (\<lambda>_. emit (Print (''Generated responses for '' @ str_int (num_students a)
                              @ '' students and '' @ str_int (num_problems a) @ '' ''))))"

definition train_stage :: "env \<Rightarrow> arguments \<Rightarrow> unit prog" where
  "train_stage env a =
     and_then (make_necessary_directories env a)
       (\<lambda>_. and_then (call (Sep_into_train_and_test a) (sep_into_train_and_test env a))
          (\<lambda>_. and_then (emit (Print ''Training MIRT models''))
             (\<lambda>_. and_then (generate_model_with_parameters env a)
                (\<lambda>_. save_model env a))))"

definition visualize_stage :: "env \<Rightarrow> string \<Rightarrow> arguments \<Rightarrow> unit prog" where
  "visualize_stage env params a =
     and_then (generate_roc_curve_from_model env a)
       (\<lambda>roc_curve.
          and_then (emit (Print (''visualizing for '' @ model a)))
            (\<lambda>_. and_then (call (Show_roc [(params, roc_curve)]) (show_roc env [(params, roc_curve)]))
               (\<lambda>_. call (Show_exercises (model a)) (show_exercises env (model a)))))"

definition test_stage :: "env \<Rightarrow> arguments \<Rightarrow> unit prog" where
  "test_stage env a = call (Adaptive_pretest_main (model a)) (adaptive_pretest_main env (model a))"

definition run_with_arguments :: "env \<Rightarrow> arguments \<Rightarrow> unit prog" where
  "run_with_arguments env a =
     (let params = gen_param_str a
      in and_then (if generate a then generate_stage env a else returns ())
           (\<lambda>_. and_then (if train a then train_stage env a else returns ())
              (\<lambda>_. and_then (if visualize a then visualize_stage env params a else returns ())
                 (\<lambda>_. if test a then test_stage env a else returns ()))))"

text \<open>The train stage up to the return of the trainer: all of it but \<^verbatim>\<open>save_model\<close>.\<close>

definition train_stage_until_trained :: "env \<Rightarrow> arguments \<Rightarrow> unit prog" where
  "train_stage_until_trained env a =
     and_then (make_necessary_directories env a)
       (\<lambda>_. and_then (call (Sep_into_train_and_test a) (sep_into_train_and_test env a))
          (\<lambda>_. and_then (emit (Print ''Training MIRT models''))
             (\<lambda>_. generate_model_with_parameters env a)))"

text \<open>The first two \<^verbatim>\<open>if\<close> statements alone: what runs before the visualize stage.\<close>

definition stages_before_visualize :: "env \<Rightarrow> arguments \<Rightarrow> unit prog" where
  "stages_before_visualize env a =
     and_then (if generate a then generate_stage env a else returns ())
       (\<lambda>_. if train a then train_stage env a else returns ())"

definition main :: "env \<Rightarrow> unit prog" where
  "main env = and_then (get_command_line_arguments env None) (run_with_arguments env)"

subsection \<open>The steps of the train stage, as the specification lists them\<close>

text \<open>
  The specification's train stage: ensure the output directories, split the dataset,
  create the artifact directory, invoke the trainer, resolve the canonical artifact
  \<open>name\<close> in the artifact directory, copy it to the model path. The two \<open>Print\<close> events
  are the progress messages the script writes in between.
\<close>

definition spec_train_steps :: "arguments \<Rightarrow> string \<Rightarrow> event list" where
  "spec_train_steps a name =
     [Mkdir_p (Path_list [model_directory a @ ''rocs/'']),
      Sep_into_train_and_test a,
      Print ''Training MIRT models'',
      Mkdir_p (Path_str (model_directory a @ gen_param_str a @ ''/'')),
      Run_programmatically (mirt_train_params a (model_directory a @ gen_param_str a @ ''/'')),
      Listdir (model_directory a @ gen_param_str a @ ''/''),
      Print (''Saving model to '' @ model a),
      Copyfile (model_directory a @ gen_param_str a @ ''/'' @ name) (model a)]"

text \<open>
  The specification's train stage as a whole: each step works on the store the previous
  step left, a step that fails ends the stage with its failure in the store it left, and
  the events are the steps made so far. Resolving lists the artifact directory in the
  store the trainer left, fails on an empty listing, and selects the last name in
  ascending order of the key; the copy is \<^verbatim>\<open>shutil.copyfile\<close> from the selected artifact to
  the model path.
\<close>

definition spec_train_stage :: "env \<Rightarrow> arguments \<Rightarrow> unit prog" where
  "spec_train_stage env a w =
     (let out = model_directory a @ gen_param_str a @ ''/'';
          stopped = (\<lambda>n e w'. \<lparr>outcome = Inl e, final = w',
                                  events = take n (spec_train_steps a [])\<rparr>)
      in case mkdir_p env (Path_list [model_directory a @ ''rocs/'']) w of
           (Inl e, w1) \<Rightarrow> stopped 1 e w1
         | (Inr u1, w1) \<Rightarrow>
        (case sep_into_train_and_test env a w1 of
           (Inl e, w2) \<Rightarrow> stopped 2 e w2
         | (Inr u2, w2) \<Rightarrow>
        (case mkdir_p env (Path_str out) w2 of
           (Inl e, w3) \<Rightarrow> stopped 4 e w3
         | (Inr u3, w3) \<Rightarrow>
        (case run_programmatically env (mirt_train_params a out) w3 of
           (Inl e, w4) \<Rightarrow> stopped 5 e w4
         | (Inr u4, w4) \<Rightarrow>
        (case os_listdir env out w4 of
           Inl e \<Rightarrow> stopped 6 e w4
         | Inr listing \<Rightarrow>
             if listing = [] then stopped 6 IndexError w4
             else (let name = last (sort_key (\<lambda>fname. last (split CHR ''_'' fname)) listing);
                       copy = shutil_copyfile env (out @ name) (model a) w4
                   in \<lparr>outcome = outcome copy, final = final copy,
                       events = spec_train_steps a name\<rparr>))))))"

subsection \<open>Concrete runs\<close>

text \<open>
  The values of the options when the command line gives none, with the script's
  directory written \<open>.\<close>, and a fixed reading of the clock.
\<close>

definition default_namespace :: namespace where
  "default_namespace =
     \<lparr>generate = False, train = False, visualize = False, test = False,
      data_file = ''./sample_data/all.responses'',
      abilities = 1, num_students = 500, num_problems = 10, time = False,
      workers = 1, num_epochs = 100,
      model_directory = ''./sample_data/models/'',
      model = ''./sample_data/models/model.json''\<rparr>"

definition example_now :: string where
  "example_now = ''2014-05-06 07:08:09.123456''"

definition example_arguments :: arguments where
  "example_arguments = namespace.extend default_namespace (arguments.fields example_now)"

text \<open>
  In the stores of the concrete runs, paths that differ only in repeated slashes name the
  same file, and no other two paths do.
\<close>

fun collapse_slashes :: "string \<Rightarrow> ident" where
  "collapse_slashes (a # b # cs) =
     (if a = CHR ''/'' \<and> b = CHR ''/'' then collapse_slashes (b # cs)
      else a # collapse_slashes (b # cs))"
| "collapse_slashes cs = cs"

definition empty_world :: world where
  "empty_world = \<lparr>file_id = collapse_slashes, files = Map.empty, dirs = {}\<rparr>"

text \<open>Collaborators for concrete runs: one that returns at once, one that raises.\<close>

definition succeed :: "world \<Rightarrow> (error + unit) \<times> world" where
  "succeed w = (Inr (), w)"

definition fail_with :: "string \<Rightarrow> world \<Rightarrow> (error + 'a) \<times> world" where
  "fail_with name w = (Inl (Raised name), w)"

text \<open>A \<^verbatim>\<open>mkdir_p\<close> that records the directories it is asked for.\<close>

definition stub_mkdir_p :: "mkdir_arg \<Rightarrow> world \<Rightarrow> (error + unit) \<times> world" where
  "stub_mkdir_p arg w =
     (Inr (), w\<lparr>dirs := dirs w
        \<union> file_id w ` set (case arg of Path_str p \<Rightarrow> [p] | Path_list ps \<Rightarrow> ps)\<rparr>)"

text \<open>
  A trainer that writes one snapshot \<^verbatim>\<open>snap_0001\<close> into the directory given after
  \<^verbatim>\<open>-o\<close> (the tenth parameter), and a directory listing that reports, of the given
  candidate names, those that exist as files in the directory.
\<close>

definition stub_trainer :: "string list \<Rightarrow> world \<Rightarrow> (error + unit) \<times> world" where
  "stub_trainer params w =
     (Inr (), w\<lparr>files := (files w)(file_id w (params ! 9 @ ''snap_0001'') \<mapsto> ''parameters'')\<rparr>)"

definition stub_listdir :: "string list \<Rightarrow> string \<Rightarrow> world \<Rightarrow> error + string list" where
  "stub_listdir names path w =
     Inr (filter (\<lambda>n. files w (file_id w (path @ n)) \<noteq> None) names)"

text \<open>
  The environment of the concrete runs: the parser yields \<open>ns\<close>, listing a directory
  reports \<open>listing\<close> whatever the store, every file can be opened for writing and the
  collaborators succeed.
\<close>

definition example_env :: "namespace \<Rightarrow> string list \<Rightarrow> env" where
  "example_env ns listing =
     \<lparr>parse_args = (\<lambda>argv. Inr ns),
      sys_argv = [''start_mirt_pipeline.py''],
      datetime_now = example_now,
      os_listdir = (\<lambda>path w. Inr listing),
      open_wb = (\<lambda>path w. True),
      generate_responses_run = (\<lambda>a. succeed),
      mkdir_p = stub_mkdir_p,
      sep_into_train_and_test = (\<lambda>a. succeed),
      run_programmatically = (\<lambda>params. succeed),
      load_and_simulate_assessment = (\<lambda>model roc_file test_file w. (Inr [], w)),
      show_roc = (\<lambda>curves. succeed),
      show_exercises = (\<lambda>model. succeed),
      adaptive_pretest_main = (\<lambda>model. succeed)\<rparr>"

text \<open>
  The environment in which the trainer writes its snapshot and the listing of a directory
  reports it once it is there.
\<close>

definition training_env :: env where
  "training_env =
     (example_env default_namespace [])
       \<lparr>os_listdir := stub_listdir [''snap_0001''], run_programmatically := stub_trainer\<rparr>"

text \<open>The environment in which the evaluator called by the visualize stage raises.\<close>

definition failing_visualize_env :: env where
  "failing_visualize_env =
     (example_env default_namespace [])
       \<lparr>load_and_simulate_assessment := (\<lambda>model roc_file test_file. fail_with ''IOError'')\<rparr>"


section \<open>Properties\<close>

subsection \<open>Decimal formatting is injective and produces no underscore\<close>

lemma digit_char_cases:
  "d < 10 \<Longrightarrow> d = 0 \<or> d = 1 \<or> d = 2 \<or> d = 3 \<or> d = 4 \<or> d = 5 \<or> d = 6 \<or> d = 7 \<or> d = 8 \<or> d = (9::nat)"
  by arith

lemma digit_char_in: "d < 10 \<Longrightarrow> digit_char d \<in> set ''0123456789''"
  unfolding digit_char_def by (drule digit_char_cases) auto

lemma digit_char_inj: "d < 10 \<Longrightarrow> e < 10 \<Longrightarrow> digit_char d = digit_char e \<Longrightarrow> d = e"
proof -
  assume d: "d < 10" and e: "e < 10" and eq: "digit_char d = digit_char e"
  have "distinct ''0123456789''" by simp
  moreover have "d < length ''0123456789''" "e < length ''0123456789''" using d e by simp_all
  ultimately show "d = e" using eq unfolding digit_char_def
    by (simp only: nth_eq_iff_index_eq)
qed

lemma str_nat_digits: "set (str_nat n) \<subseteq> set ''0123456789''"
proof (induction n rule: str_nat.induct)
  case (1 n)
  show ?case
  proof (cases "n < 10")
    case True
    then show ?thesis using digit_char_in [of n] by (subst str_nat.simps) simp
  next
    case False
    have "n mod 10 < 10" by simp
    then have "digit_char (n mod 10) \<in> set ''0123456789''" by (rule digit_char_in)
    with False "1.IH" show ?thesis by (subst str_nat.simps) simp
  qed
qed

lemma str_nat_nonempty: "str_nat n \<noteq> []"
  by (subst str_nat.simps) simp

lemma str_nat_length_one: "length (str_nat n) = 1 \<longleftrightarrow> n < 10"
proof (cases "n < 10")
  case True
  then show ?thesis by (subst str_nat.simps) simp
next
  case False
  have "length (str_nat (n div 10)) \<noteq> 0" using str_nat_nonempty by simp
  with False show ?thesis by (subst str_nat.simps) simp
qed

lemma str_nat_inj: "str_nat n = str_nat m \<Longrightarrow> n = m"
proof (induction n arbitrary: m rule: str_nat.induct)
  case (1 n)
  show ?case
  proof (cases "n < 10")
    case True
    then have "length (str_nat m) = 1" using "1.prems" str_nat_length_one [of n] by simp
    then have m: "m < 10" by (simp only: str_nat_length_one)
    have "[digit_char n] = [digit_char m]"
      using "1.prems" True m by (simp add: str_nat.simps [of n] str_nat.simps [of m])
    then show ?thesis using True m digit_char_inj by simp
  next
    case False
    then have "length (str_nat m) \<noteq> 1" using "1.prems" str_nat_length_one [of n] by simp
    then have m: "\<not> m < 10" by (simp only: str_nat_length_one) simp
    have "str_nat (n div 10) @ [digit_char (n mod 10)] = str_nat (m div 10) @ [digit_char (m mod 10)]"
      using "1.prems" False m by (simp add: str_nat.simps [of n] str_nat.simps [of m])
    then have a: "str_nat (n div 10) = str_nat (m div 10)"
      and b: "digit_char (n mod 10) = digit_char (m mod 10)" by simp_all
    from a have "n div 10 = m div 10" using "1.IH" False by simp
    moreover from b have "n mod 10 = m mod 10" using digit_char_inj [of "n mod 10" "m mod 10"] by simp
    ultimately show ?thesis by (metis div_mult_mod_eq)
  qed
qed

lemma str_int_inj: "str_int i = str_int j \<Longrightarrow> i = j"
proof -
  assume eq: "str_int i = str_int j"
  have nd: "\<And>n. hd (str_nat n) \<noteq> CHR ''-''"
  proof -
    fix n
    have "hd (str_nat n) \<in> set (str_nat n)" using str_nat_nonempty by simp
    then have "hd (str_nat n) \<in> set ''0123456789''" using str_nat_digits by blast
    then show "hd (str_nat n) \<noteq> CHR ''-''" by auto
  qed
  show "i = j"
  proof (cases "i < 0"; cases "j < 0")
    assume "i < 0" "j < 0"
    with eq have "nat (- i) = nat (- j)" by (simp add: str_int_def str_nat_inj)
    with \<open>i < 0\<close> \<open>j < 0\<close> show ?thesis by simp
  next
    assume "i < 0" "\<not> j < 0"
    with eq have "hd (str_nat (nat j)) = CHR ''-''" by (simp add: str_int_def) (metis list.sel(1))
    with nd show ?thesis by blast
  next
    assume "\<not> i < 0" "j < 0"
    with eq have "hd (str_nat (nat i)) = CHR ''-''" by (simp add: str_int_def)
    with nd show ?thesis by blast
  next
    assume "\<not> i < 0" "\<not> j < 0"
    with eq have "nat i = nat j" by (simp add: str_int_def str_nat_inj)
    with \<open>\<not> i < 0\<close> \<open>\<not> j < 0\<close> show ?thesis by simp
  qed
qed

lemma str_int_no_underscore: "CHR ''_'' \<notin> set (str_int i)"
proof -
  have "CHR ''_'' \<notin> set (str_nat n)" for n using str_nat_digits [of n] by auto
  then show ?thesis by (simp add: str_int_def)
qed

lemma append_sep_eq:
  "c \<notin> set xs \<Longrightarrow> c \<notin> set ys \<Longrightarrow> xs @ c # r = ys @ c # s \<Longrightarrow> xs = ys \<and> r = s"
proof (induction xs arbitrary: ys)
  case Nil
  then show ?case by (cases ys) auto
next
  case (Cons x xs)
  then show ?case by (cases ys) auto
qed

subsection \<open>Splitting and sorting\<close>

lemma split_nonempty: "split sep s \<noteq> []"
  by (induction s) (auto split: list.splits)

lemma split_no_sep: "sep \<notin> set s \<Longrightarrow> split sep s = [s]"
  by (induction s) auto

lemma split_sep_length: "sep \<in> set s \<Longrightarrow> 2 \<le> length (split sep s)"
proof (induction s)
  case Nil
  then show ?case by simp
next
  case (Cons c cs)
  show ?case
  proof (cases "c = sep")
    case True
    have "1 \<le> length (split sep cs)" using split_nonempty [of sep cs] by (cases "split sep cs") auto
    with True show ?thesis by simp
  next
    case False
    with Cons.prems have "sep \<in> set cs" by simp
    then have "2 \<le> length (split sep cs)" by (rule Cons.IH)
    with False show ?thesis by (auto split: list.splits)
  qed
qed

lemma last_split: "last (split sep s) = rev (takeWhile (\<lambda>c. c \<noteq> sep) (rev s))"
proof (induction s)
  case Nil
  show ?case by simp
next
  case (Cons c cs)
  show ?case
  proof (cases "c = sep")
    case True
    then show ?thesis using Cons split_nonempty [of sep cs]
      by (simp add: takeWhile_append)
  next
    case False
    show ?thesis
    proof (cases "sep \<in> set cs")
      case True
      then have "2 \<le> length (split sep cs)" by (rule split_sep_length)
      then obtain p q qs where sp: "split sep cs = p # q # qs"
        by (cases "split sep cs"; cases "tl (split sep cs)") auto
      have "\<not> (\<forall>x\<in>set cs. x \<noteq> sep)" using True by blast
      with False Cons sp show ?thesis by (auto simp: takeWhile_append)
    next
      case no: False
      with False show ?thesis by (simp add: split_no_sep takeWhile_append)
    qed
  qed
qed

lemma last_filter_last: "xs \<noteq> [] \<Longrightarrow> P (last xs) \<Longrightarrow> last (filter P xs) = last xs"
proof (induction xs)
  case Nil
  then show ?case by simp
next
  case (Cons a xs)
  show ?case
  proof (cases "xs = []")
    case True
    with Cons.prems show ?thesis by simp
  next
    case False
    with Cons.prems have "P (last xs)" by simp
    moreover have "last xs \<in> set xs" using False by simp
    ultimately have "filter P xs \<noteq> []" by (auto simp: filter_empty_conv)
    with Cons False \<open>P (last xs)\<close> show ?thesis by simp
  qed
qed

lemma sorted_map_last_max:
  "sorted (map f ys) \<Longrightarrow> y \<in> set ys \<Longrightarrow> f y \<le> f (last ys)"
  by (induction ys) (auto)

lemma sort_key_eq_Nil: "sort_key f xs = [] \<longleftrightarrow> xs = []"
  by (metis length_sort list.size(3) length_0_conv)

lemma last_sort_key:
  fixes f :: "'a \<Rightarrow> 'k::linorder"
  assumes "xs \<noteq> []"
  shows "last (sort_key f xs) = last (filter (\<lambda>y. f y = Max (f ` set xs)) xs)"
proof -
  let ?ys = "sort_key f xs"
  let ?k = "Max (f ` set xs)"
  have ne: "?ys \<noteq> []" using assms by (simp add: sort_key_eq_Nil)
  have "last ?ys \<in> set ?ys" using ne by (rule last_in_set)
  then have mem: "last ?ys \<in> set xs" by (simp only: set_sort)
  have "\<forall>y\<in>set xs. f y \<le> f (last ?ys)"
    using sorted_map_last_max [of f ?ys] sorted_sort_key [of f xs] by simp
  then have "f (last ?ys) = ?k" using mem
    by (intro antisym Max_ge Max.boundedI) auto
  then have "last (filter (\<lambda>y. f y = ?k) ?ys) = last ?ys"
    using ne by (simp add: last_filter_last)
  then show ?thesis by (simp add: sort_key_stable)
qed

lemma last_sort_key_greatest:
  fixes f :: "'a \<Rightarrow> 'k::linorder"
  assumes "x \<in> set xs" and "\<forall>y\<in>set xs. y \<noteq> x \<longrightarrow> f y < f x"
  shows "last (sort_key f xs) = x"
proof -
  have ne: "xs \<noteq> []" using assms(1) by auto
  have "Max (f ` set xs) = f x"
    using assms by (intro Max_eqI) (auto simp: less_le)
  moreover have "filter (\<lambda>y. f y = f x) xs = replicate (length (filter (\<lambda>y. f y = f x) xs)) x"
    using assms(2) by (induction xs) (auto)
  moreover have "filter (\<lambda>y. f y = f x) xs \<noteq> []" using assms(1) by (simp add: filter_empty_conv) blast
  ultimately show ?thesis using last_sort_key [OF ne, of f]
    by (metis last_replicate length_0_conv)
qed

subsection \<open>Sequencing\<close>

lemma returns_simps [simp]:
  "outcome (returns x w) = Inr x" "final (returns x w) = w" "events (returns x w) = []"
  by (simp_all add: returns_def)

lemma raise_simps [simp]:
  "outcome (raise e w) = Inl e" "final (raise e w) = w" "events (raise e w) = []"
  by (simp_all add: raise_def)

lemma emit_simps [simp]:
  "outcome (emit ev w) = Inr ()" "final (emit ev w) = w" "events (emit ev w) = [ev]"
  by (simp_all add: emit_def)

lemma call_simps [simp]:
  "outcome (call ev f w) = fst (f w)" "final (call ev f w) = snd (f w)" "events (call ev f w) = [ev]"
  by (simp_all add: call_def split: prod.splits)

lemma and_then_simps:
  "outcome (and_then m k w) =
     (case outcome (m w) of Inl e \<Rightarrow> Inl e | Inr x \<Rightarrow> outcome (k x (final (m w))))"
  "final (and_then m k w) =
     (case outcome (m w) of Inl e \<Rightarrow> final (m w) | Inr x \<Rightarrow> final (k x (final (m w))))"
  "events (and_then m k w) =
     (case outcome (m w) of Inl e \<Rightarrow> events (m w) | Inr x \<Rightarrow> events (m w) @ events (k x (final (m w))))"
  by (simp_all add: and_then_def Let_def split: sum.splits)

subsection \<open>Concrete values\<close>

lemma example_dir:
  "model_directory example_arguments @ gen_param_str example_arguments @ ''/''
     = ''./sample_data/models/1_no_time_2014-05-06 07:08:09.123456/''"
  by (simp add: example_arguments_def default_namespace_def example_now_def gen_param_str_def
      namespace.defs arguments.defs str_int_def str_nat.simps digit_char_def)

subsection \<open>The run identifier\<close>

lemma gen_param_str_inj:
  assumes "gen_param_str a = gen_param_str b"
  shows "abilities a = abilities b \<and> time a = time b \<and> datetime a = datetime b"
proof -
  let ?t = "\<lambda>a. (if time a then ''time'' else ''no_time'') @ ''_'' @ datetime a"
  have "str_int (abilities a) @ CHR ''_'' # ?t a = str_int (abilities b) @ CHR ''_'' # ?t b"
    using assms by (simp add: gen_param_str_def)
  then have "str_int (abilities a) = str_int (abilities b) \<and> ?t a = ?t b"
    by (rule append_sep_eq [OF str_int_no_underscore str_int_no_underscore])
  then show ?thesis by (auto dest: str_int_inj split: if_splits)
qed

text \<open>
  C6: \<^verbatim>\<open>gen_param_str\<close> depends only on the ability count, the time-mode flag and the
  timestamp, and produces exactly \<^verbatim>\<open>{abilities}_{time|no_time}_{timestamp}\<close> with the count
  in decimal. Two configurations get the same identifier exactly when they agree on all
  three components; in particular the same configuration always yields the same
  identifier, and distinct timestamps yield distinct identifiers.
\<close>

theorem gen_param_str_format_unique:
  "gen_param_str a =
     str_int (abilities a) @ ''_'' @ (if time a then ''time'' else ''no_time'') @ ''_'' @ datetime a
   \<and> (gen_param_str a = gen_param_str b
        \<longleftrightarrow> abilities a = abilities b \<and> time a = time b \<and> datetime a = datetime b)
   \<and> (datetime a \<noteq> datetime b \<longrightarrow> gen_param_str a \<noteq> gen_param_str b)"
  using gen_param_str_inj [of a b] by (auto simp: gen_param_str_def)


theorem gen_param_str_format_unique_witness:
  "datetime example_arguments \<noteq> datetime (example_arguments\<lparr>datetime := ''2014-05-06 07:08:10''\<rparr>)
   \<and> gen_param_str example_arguments = ''1_no_time_2014-05-06 07:08:09.123456''
   \<and> gen_param_str example_arguments
       \<noteq> gen_param_str (example_arguments\<lparr>datetime := ''2014-05-06 07:08:10''\<rparr>)"
proof -
  have h: "datetime example_arguments
      \<noteq> datetime (example_arguments\<lparr>datetime := ''2014-05-06 07:08:10''\<rparr>)"
    by (simp add: example_arguments_def example_now_def namespace.defs arguments.defs)
  have f: "str_int (abilities example_arguments) @ ''_''
        @ (if time example_arguments then ''time'' else ''no_time'') @ ''_''
        @ datetime example_arguments = ''1_no_time_2014-05-06 07:08:09.123456''"
    by (simp add: example_arguments_def default_namespace_def example_now_def
      namespace.defs arguments.defs str_int_def str_nat.simps digit_char_def)
  note u = gen_param_str_format_unique
      [of example_arguments "example_arguments\<lparr>datetime := ''2014-05-06 07:08:10''\<rparr>"]
  from u have g: "gen_param_str example_arguments = str_int (abilities example_arguments) @ ''_''
        @ (if time example_arguments then ''time'' else ''no_time'') @ ''_''
        @ datetime example_arguments"
    by (rule conjunct1)
  from u h have d: "gen_param_str example_arguments
       \<noteq> gen_param_str (example_arguments\<lparr>datetime := ''2014-05-06 07:08:10''\<rparr>)"
    by blast
  show ?thesis
    by (intro conjI) (rule h, rule trans [OF g f], rule d)
qed


subsection \<open>Resolving the latest parameter file\<close>

lemma get_latest_outcome:
  "outcome (get_latest_parameter_file_name env a w) =
     (case os_listdir env (model_directory a @ gen_param_str a @ ''/'') w of
        Inl e \<Rightarrow> Inl e
      | Inr npz_files \<Rightarrow>
          if npz_files = [] then Inl IndexError
          else Inr (model_directory a @ gen_param_str a @ ''/'' @ last (sort_key sort_key_fn npz_files)))"
  by (simp add: get_latest_parameter_file_name_def Let_def and_then_simps index_last_def
      sort_key_eq_Nil split: sum.splits list.splits)

lemma get_latest_final: "final (get_latest_parameter_file_name env a w) = w"
  by (simp add: get_latest_parameter_file_name_def Let_def and_then_simps index_last_def
      split: sum.splits list.splits)

lemma get_latest_events:
  "events (get_latest_parameter_file_name env a w) = [Listdir (model_directory a @ gen_param_str a @ ''/'')]"
  by (simp add: get_latest_parameter_file_name_def Let_def and_then_simps index_last_def
      split: sum.splits list.splits)

lemma sort_key_fn_eq: "sort_key_fn fname = rev (takeWhile (\<lambda>c. c \<noteq> CHR ''_'') (rev fname))"
  by (simp add: sort_key_fn_def last_split)

text \<open>
  C1: when the artifact directory \<^verbatim>\<open>model_directory + gen_param_str(arguments) + '/'\<close>
  lists a non-empty \<open>listing\<close>, \<^verbatim>\<open>get_latest_parameter_file_name\<close> returns the directory
  followed by the last element of the listing sorted by key: the sorted list is a
  permutation of the listing, ascending in the key, and the key of a filename is what
  follows its last underscore (the whole name when it has none). A listing that consists
  of \<^verbatim>\<open>a_1\<close>, \<^verbatim>\<open>a_2\<close> and \<^verbatim>\<open>a_10\<close>, in any order, selects \<^verbatim>\<open>a_2\<close>; one that consists of
  \<^verbatim>\<open>a_01\<close>, \<^verbatim>\<open>a_02\<close> and \<^verbatim>\<open>a_10\<close> selects \<^verbatim>\<open>a_10\<close>.
\<close>

theorem resolve_selects_last_of_sorted:
  assumes "os_listdir env (model_directory a @ gen_param_str a @ ''/'') w = Inr listing"
    and "listing \<noteq> []"
  shows "outcome (get_latest_parameter_file_name env a w) =
           Inr (model_directory a @ gen_param_str a @ ''/'' @ last (sort_key sort_key_fn listing))
         \<and> sorted (map sort_key_fn (sort_key sort_key_fn listing))
         \<and> mset (sort_key sort_key_fn listing) = mset listing
         \<and> (\<forall>fname. sort_key_fn fname = rev (takeWhile (\<lambda>c. c \<noteq> CHR ''_'') (rev fname)))
         \<and> (set listing = {''a_1'', ''a_2'', ''a_10''} \<longrightarrow>
              outcome (get_latest_parameter_file_name env a w) =
                Inr (model_directory a @ gen_param_str a @ ''/'' @ ''a_2''))
         \<and> (set listing = {''a_01'', ''a_02'', ''a_10''} \<longrightarrow>
              outcome (get_latest_parameter_file_name env a w) =
                Inr (model_directory a @ gen_param_str a @ ''/'' @ ''a_10''))"
proof -
  have sel: "outcome (get_latest_parameter_file_name env a w) =
           Inr (model_directory a @ gen_param_str a @ ''/'' @ last (sort_key sort_key_fn listing))"
    using assms by (simp add: get_latest_outcome)
  have ex1: "last (sort_key sort_key_fn listing) = ''a_2''"
    if "set listing = {''a_1'', ''a_2'', ''a_10''}"
    by (rule last_sort_key_greatest) (simp_all add: that sort_key_fn_eq)
  have ex2: "last (sort_key sort_key_fn listing) = ''a_10''"
    if "set listing = {''a_01'', ''a_02'', ''a_10''}"
    by (rule last_sort_key_greatest) (simp_all add: that sort_key_fn_eq)
  show ?thesis
    using sel ex1 ex2 by (simp add: sort_key_fn_eq [symmetric])
qed

theorem resolve_selects_last_of_sorted_witness:
  "os_listdir (example_env default_namespace [''a_10'', ''a_1'', ''a_2''])
      (model_directory example_arguments @ gen_param_str example_arguments @ ''/'') empty_world
     = Inr [''a_10'', ''a_1'', ''a_2'']
   \<and> [''a_10'', ''a_1'', ''a_2''] \<noteq> []
   \<and> set [''a_10'', ''a_1'', ''a_2''] = {''a_1'', ''a_2'', ''a_10''}
   \<and> outcome (get_latest_parameter_file_name
        (example_env default_namespace [''a_10'', ''a_1'', ''a_2'']) example_arguments empty_world)
       = Inr ''./sample_data/models/1_no_time_2014-05-06 07:08:09.123456/a_2''
   \<and> os_listdir (example_env default_namespace [''a_10'', ''a_01'', ''a_02''])
      (model_directory example_arguments @ gen_param_str example_arguments @ ''/'') empty_world
     = Inr [''a_10'', ''a_01'', ''a_02'']
   \<and> set [''a_10'', ''a_01'', ''a_02''] = {''a_01'', ''a_02'', ''a_10''}
   \<and> outcome (get_latest_parameter_file_name
        (example_env default_namespace [''a_10'', ''a_01'', ''a_02'']) example_arguments empty_world)
       = Inr ''./sample_data/models/1_no_time_2014-05-06 07:08:09.123456/a_10''"
proof -
  have h: "os_listdir (example_env default_namespace [''a_10'', ''a_1'', ''a_2''])
      (model_directory example_arguments @ gen_param_str example_arguments @ ''/'') empty_world
     = Inr [''a_10'', ''a_1'', ''a_2'']"
    by (simp add: example_env_def)
  have n: "[''a_10'', ''a_1'', ''a_2''] \<noteq> ([] :: string list)" by simp
  have s: "set [''a_10'', ''a_1'', ''a_2''] = {''a_1'', ''a_2'', ''a_10''}" by auto
  have r: "outcome (get_latest_parameter_file_name
        (example_env default_namespace [''a_10'', ''a_1'', ''a_2'']) example_arguments empty_world)
       = Inr ''./sample_data/models/1_no_time_2014-05-06 07:08:09.123456/a_2''"
    using resolve_selects_last_of_sorted [OF h n] s by (simp add: example_dir)
  have h': "os_listdir (example_env default_namespace [''a_10'', ''a_01'', ''a_02''])
      (model_directory example_arguments @ gen_param_str example_arguments @ ''/'') empty_world
     = Inr [''a_10'', ''a_01'', ''a_02'']"
    by (simp add: example_env_def)
  have n': "[''a_10'', ''a_01'', ''a_02''] \<noteq> ([] :: string list)" by simp
  have s': "set [''a_10'', ''a_01'', ''a_02''] = {''a_01'', ''a_02'', ''a_10''}" by auto
  have r': "outcome (get_latest_parameter_file_name
        (example_env default_namespace [''a_10'', ''a_01'', ''a_02'']) example_arguments empty_world)
       = Inr ''./sample_data/models/1_no_time_2014-05-06 07:08:09.123456/a_10''"
    using resolve_selects_last_of_sorted [OF h' n'] s' by (simp add: example_dir)
  from h n s r h' s' r' show ?thesis by blast
qed

text \<open>
  C4: when the artifact directory can be listed, \<^verbatim>\<open>get_latest_parameter_file_name\<close>
  returns a path if the listing is non-empty, and fails if it is empty: indexing the
  empty sorted list with \<^verbatim>\<open>[-1]\<close> raises \<^verbatim>\<open>IndexError\<close>, which is the script's failure
  for a trainer that produced no artifact; no path is returned then.
\<close>

theorem resolve_fails_iff_empty:
  assumes "os_listdir env (model_directory a @ gen_param_str a @ ''/'') w = Inr listing"
  shows "(listing \<noteq> [] \<longrightarrow> (\<exists>path. outcome (get_latest_parameter_file_name env a w) = Inr path))
       \<and> (listing = [] \<longrightarrow> outcome (get_latest_parameter_file_name env a w) = Inl IndexError)"
  using assms by (simp add: get_latest_outcome)

theorem resolve_fails_iff_empty_witness:
  "os_listdir (example_env default_namespace [])
      (model_directory example_arguments @ gen_param_str example_arguments @ ''/'') empty_world
     = Inr []
   \<and> outcome (get_latest_parameter_file_name (example_env default_namespace [])
        example_arguments empty_world) = Inl IndexError
   \<and> os_listdir (example_env default_namespace [''snap_0001''])
      (model_directory example_arguments @ gen_param_str example_arguments @ ''/'') empty_world
     = Inr [''snap_0001'']
   \<and> (\<exists>path. outcome (get_latest_parameter_file_name (example_env default_namespace [''snap_0001''])
        example_arguments empty_world) = Inr path)"
proof -
  have h: "os_listdir (example_env default_namespace [])
      (model_directory example_arguments @ gen_param_str example_arguments @ ''/'') empty_world
     = Inr []"
    by (simp add: example_env_def)
  have e: "outcome (get_latest_parameter_file_name (example_env default_namespace [])
        example_arguments empty_world) = Inl IndexError"
    using resolve_fails_iff_empty [OF h] by simp
  have h': "os_listdir (example_env default_namespace [''snap_0001''])
      (model_directory example_arguments @ gen_param_str example_arguments @ ''/'') empty_world
     = Inr [''snap_0001'']"
    by (simp add: example_env_def)
  have p: "\<exists>path. outcome (get_latest_parameter_file_name
        (example_env default_namespace [''snap_0001'']) example_arguments empty_world) = Inr path"
    using resolve_fails_iff_empty [OF h'] by simp
  from h e h' p show ?thesis by blast
qed

subsection \<open>Building the arguments\<close>

lemma extend_simps [simp]:
  "generate (namespace.extend ns (arguments.fields d)) = generate ns"
  "train (namespace.extend ns (arguments.fields d)) = train ns"
  "visualize (namespace.extend ns (arguments.fields d)) = visualize ns"
  "test (namespace.extend ns (arguments.fields d)) = test ns"
  "abilities (namespace.extend ns (arguments.fields d)) = abilities ns"
  "workers (namespace.extend ns (arguments.fields d)) = workers ns"
  "num_epochs (namespace.extend ns (arguments.fields d)) = num_epochs ns"
  "datetime (namespace.extend ns (arguments.fields d)) = d"
  by (simp_all add: namespace.defs arguments.defs)

lemma get_command_line_arguments_outcome:
  "outcome (get_command_line_arguments env arguments w) =
     (case parse_args env (case arguments of Some (x # xs) \<Rightarrow> x # xs | _ \<Rightarrow> drop 1 (sys_argv env)) of
        Inl e \<Rightarrow> Inl e
      | Inr ns \<Rightarrow> Inr (namespace.extend ns (arguments.fields (datetime_now env))))"
  by (simp add: get_command_line_arguments_def Let_def and_then_simps split: sum.splits)

lemma get_command_line_arguments_final:
  "final (get_command_line_arguments env arguments w) = w"
  by (simp add: get_command_line_arguments_def Let_def and_then_simps split: sum.splits)

lemma get_command_line_arguments_events:
  "events (get_command_line_arguments env arguments w) =
     (case parse_args env (case arguments of Some (x # xs) \<Rightarrow> x # xs | _ \<Rightarrow> drop 1 (sys_argv env)) of
        Inl e \<Rightarrow> []
      | Inr ns \<Rightarrow> if generate ns \<or> train ns \<or> visualize ns \<or> test ns then []
                  else [Print usage_message, Print_help])"
  by (simp add: get_command_line_arguments_def Let_def and_then_simps split: sum.splits)

text \<open>
  C2 (as the script behaves): \<^verbatim>\<open>get_command_line_arguments\<close> checks no range. Whenever the
  parser returns a namespace, the construction succeeds and stores the ability count, the
  worker count and the epoch count as parsed, whatever their values, together with the
  timestamp; the only failure is the parser's own. So ability count 3 with worker count 4
  succeeds and stores both, and so does ability count 0.
\<close>

theorem construction_stores_counts_unchecked:
  assumes "parse_args env (case arguments of Some (x # xs) \<Rightarrow> x # xs | _ \<Rightarrow> drop 1 (sys_argv env))
             = Inr ns"
  shows "\<exists>a. outcome (get_command_line_arguments env arguments w) = Inr a
             \<and> abilities a = abilities ns \<and> workers a = workers ns
             \<and> num_epochs a = num_epochs ns \<and> datetime a = datetime_now env"
  using assms by (simp add: get_command_line_arguments_outcome)

theorem construction_stores_counts_unchecked_witness:
  "parse_args (example_env (default_namespace\<lparr>abilities := 3, workers := 4\<rparr>) [])
      (case None of Some (x # xs) \<Rightarrow> x # xs
       | _ \<Rightarrow> drop 1 (sys_argv (example_env (default_namespace\<lparr>abilities := 3, workers := 4\<rparr>) [])))
     = Inr (default_namespace\<lparr>abilities := 3, workers := 4\<rparr>)
   \<and> (\<exists>a. outcome (get_command_line_arguments
             (example_env (default_namespace\<lparr>abilities := 3, workers := 4\<rparr>) []) None empty_world) = Inr a
          \<and> abilities a = 3 \<and> workers a = 4)"
proof -
  have h: "parse_args (example_env (default_namespace\<lparr>abilities := 3, workers := 4\<rparr>) [])
      (case None of Some (x # xs) \<Rightarrow> x # xs
       | _ \<Rightarrow> drop 1 (sys_argv (example_env (default_namespace\<lparr>abilities := 3, workers := 4\<rparr>) [])))
     = Inr (default_namespace\<lparr>abilities := 3, workers := 4\<rparr>)"
    by (simp add: example_env_def)
  from construction_stores_counts_unchecked [OF h, of empty_world]
  obtain a where "outcome (get_command_line_arguments
             (example_env (default_namespace\<lparr>abilities := 3, workers := 4\<rparr>) []) None empty_world) = Inr a"
    and "abilities a = 3" and "workers a = 4"
    by (auto simp: default_namespace_def)
  with h show ?thesis by blast
qed

text \<open>
  The claim C2 fails on the script: with ability count 0 (likewise worker count 0, epoch
  count 0) and otherwise default options the construction returns the arguments, storing
  the 0.
\<close>

theorem ability_count_zero_accepted:
  "outcome (get_command_line_arguments (example_env (default_namespace\<lparr>abilities := 0\<rparr>) []) None
      empty_world) = Inr (example_arguments\<lparr>abilities := 0\<rparr>)
   \<and> outcome (get_command_line_arguments (example_env (default_namespace\<lparr>workers := 0\<rparr>) []) None
      empty_world) = Inr (example_arguments\<lparr>workers := 0\<rparr>)
   \<and> outcome (get_command_line_arguments (example_env (default_namespace\<lparr>num_epochs := 0\<rparr>) []) None
      empty_world) = Inr (example_arguments\<lparr>num_epochs := 0\<rparr>)"
  by (simp add: get_command_line_arguments_outcome example_env_def example_arguments_def
      namespace.defs arguments.defs default_namespace_def)

subsection \<open>No stage requested\<close>

lemma run_with_arguments_no_stage:
  "\<not> generate a \<Longrightarrow> \<not> train a \<Longrightarrow> \<not> visualize a \<Longrightarrow> \<not> test a \<Longrightarrow>
   run_with_arguments env a w = returns () w"
  by (simp add: run_with_arguments_def and_then_def returns_def Let_def)

text \<open>
  C5: when the command line parses to a namespace with none of \<^verbatim>\<open>generate\<close>, \<^verbatim>\<open>train\<close>,
  \<^verbatim>\<open>visualize\<close>, \<^verbatim>\<open>test\<close> set, \<^verbatim>\<open>main\<close> returns normally, its only events are the two
  writes to standard output (the message naming the four flags, then the parser's help),
  no library function or collaborator is called, and the store of files and directories at
  the end is the one at the start.
\<close>

theorem no_stage_prints_usage_only:
  assumes "parse_args env (drop 1 (sys_argv env)) = Inr ns"
    and "\<not> generate ns" and "\<not> train ns" and "\<not> visualize ns" and "\<not> test ns"
  shows "outcome (main env w) = Inr ()
       \<and> final (main env w) = w
       \<and> events (main env w) = [Print usage_message, Print_help]"
  using assms
  by (simp add: main_def and_then_simps get_command_line_arguments_outcome
      get_command_line_arguments_final get_command_line_arguments_events
      run_with_arguments_no_stage)

theorem no_stage_prints_usage_only_witness:
  "parse_args (example_env default_namespace [])
       (drop 1 (sys_argv (example_env default_namespace []))) = Inr default_namespace
   \<and> \<not> generate default_namespace \<and> \<not> train default_namespace
   \<and> \<not> visualize default_namespace \<and> \<not> test default_namespace
   \<and> outcome (main (example_env default_namespace []) empty_world) = Inr ()
   \<and> final (main (example_env default_namespace []) empty_world) = empty_world
   \<and> events (main (example_env default_namespace []) empty_world)
        = [Print usage_message, Print_help]"
proof -
  have h: "parse_args (example_env default_namespace [])
       (drop 1 (sys_argv (example_env default_namespace []))) = Inr default_namespace"
    by (simp add: example_env_def)
  have f: "\<not> generate default_namespace" "\<not> train default_namespace"
    "\<not> visualize default_namespace" "\<not> test default_namespace"
    by (simp_all add: default_namespace_def)
  from no_stage_prints_usage_only [OF h f, of empty_world] h f show ?thesis by blast
qed


subsection \<open>Saving the model\<close>

lemma run_eqI:
  "outcome r = outcome r' \<Longrightarrow> final r = final r' \<Longrightarrow> events r = events r' \<Longrightarrow> (r :: 'a run) = r'"
  by simp

lemma and_then_assoc:
  "and_then (and_then m f) g = and_then m (\<lambda>x. and_then (f x) g)"
proof
  fix w
  show "and_then (and_then m f) g w = and_then m (\<lambda>x. and_then (f x) g) w"
    by (rule run_eqI) (simp_all add: and_then_simps split: sum.splits)
qed

lemma shutil_copyfile_events [simp]: "events (shutil_copyfile env src dst w) = [Copyfile src dst]"
  by (simp add: shutil_copyfile_def)

lemma shutil_copyfile_success:
  assumes "outcome (shutil_copyfile env src dst w) = Inr ()"
  shows "\<exists>bytes. files w (file_id w src) = Some bytes \<and> file_id w src \<noteq> file_id w dst
           \<and> final (shutil_copyfile env src dst w) = w\<lparr>files := (files w)(file_id w dst \<mapsto> bytes)\<rparr>"
  using assms by (auto simp: shutil_copyfile_def Let_def split: option.splits if_splits)


lemma save_model_events:
  "events (save_model env a w) =
     (case outcome (get_latest_parameter_file_name env a w) of
        Inl e \<Rightarrow> [Listdir (model_directory a @ gen_param_str a @ ''/'')]
      | Inr src \<Rightarrow> [Listdir (model_directory a @ gen_param_str a @ ''/''),
                    Print (''Saving model to '' @ model a), Copyfile src (model a)])"
  by (simp add: save_model_def and_then_simps get_latest_events split: sum.splits)


lemma save_model_success:
  assumes "outcome (save_model env a w) = Inr ()"
  shows "\<exists>src. outcome (get_latest_parameter_file_name env a w) = Inr src
           \<and> outcome (shutil_copyfile env src (model a) w) = Inr ()
           \<and> final (save_model env a w) = final (shutil_copyfile env src (model a) w)"
  using assms
  by (auto simp: save_model_def and_then_simps get_latest_final split: sum.splits)

lemma save_model_effect:
  assumes "outcome (save_model env a w) = Inr ()"
  shows "\<exists>src bytes.
           outcome (get_latest_parameter_file_name env a w) = Inr src
         \<and> events (save_model env a w) =
             [Listdir (model_directory a @ gen_param_str a @ ''/''),
              Print (''Saving model to '' @ model a), Copyfile src (model a)]
         \<and> files w (file_id w src) = Some bytes
         \<and> file_id w src \<noteq> file_id w (model a)
         \<and> final (save_model env a w) = w\<lparr>files := (files w)(file_id w (model a) \<mapsto> bytes)\<rparr>"
proof -
  from save_model_success [OF assms] obtain src where
    src: "outcome (get_latest_parameter_file_name env a w) = Inr src"
    and ok: "outcome (shutil_copyfile env src (model a) w) = Inr ()"
    and fin: "final (save_model env a w) = final (shutil_copyfile env src (model a) w)"
    by blast
  from shutil_copyfile_success [OF ok] obtain bytes where
    b: "files w (file_id w src) = Some bytes" and ne: "file_id w src \<noteq> file_id w (model a)"
    and fin': "final (shutil_copyfile env src (model a) w)
                 = w\<lparr>files := (files w)(file_id w (model a) \<mapsto> bytes)\<rparr>"
    by blast
  show ?thesis
    using src b ne by (intro exI [of _ src] exI [of _ bytes]) (simp add: fin fin' save_model_events)
qed

lemma gen_param_str_example [simp]:
  "gen_param_str example_arguments = ''1_no_time_2014-05-06 07:08:09.123456''"
  by (simp add: example_arguments_def default_namespace_def example_now_def gen_param_str_def
      namespace.defs arguments.defs str_int_def str_nat.simps digit_char_def)

lemma example_arguments_fields [simp]:
  "model_directory example_arguments = ''./sample_data/models/''"
  "model example_arguments = ''./sample_data/models/model.json''"
  by (simp_all add: example_arguments_def default_namespace_def namespace.defs arguments.defs)

lemma collapse_examples [simp]:
  "collapse_slashes ''./sample_data/models/model.json'' = ''./sample_data/models/model.json''"
  "collapse_slashes ''./sample_data/models/1_no_time_2014-05-06 07:08:09.123456/snap_0001''
     = ''./sample_data/models/1_no_time_2014-05-06 07:08:09.123456/snap_0001''"
  "collapse_slashes ''./sample_data/models/1_no_time_2014-05-06 07:08:09.123456//snap_0001''
     = ''./sample_data/models/1_no_time_2014-05-06 07:08:09.123456/snap_0001''"
  "collapse_slashes ''./sample_data/models/1_no_time_2014-05-06 07:08:09.123456/''
     = ''./sample_data/models/1_no_time_2014-05-06 07:08:09.123456/''"
  "collapse_slashes ''./sample_data/models/rocs/'' = ''./sample_data/models/rocs/''"
  by simp_all


lemma example_model_fields [simp]:
  "model_directory (example_arguments\<lparr>model := m\<rparr>) = ''./sample_data/models/''"
  "gen_param_str (example_arguments\<lparr>model := m\<rparr>) = ''1_no_time_2014-05-06 07:08:09.123456''"
  "model (example_arguments\<lparr>model := m\<rparr>) = m"
  by (simp_all add: gen_param_str_def example_arguments_def default_namespace_def example_now_def
      namespace.defs arguments.defs str_int_def str_nat.simps digit_char_def)





subsection \<open>The parameters of the trainer\<close>

lemma generate_model_events:
  "events (generate_model_with_parameters env a w) =
     Mkdir_p (Path_str (model_directory a @ gen_param_str a @ ''/''))
     # (case fst (mkdir_p env (Path_str (model_directory a @ gen_param_str a @ ''/'')) w) of
          Inl e \<Rightarrow> []
        | Inr u \<Rightarrow> [Run_programmatically
                      (mirt_train_params a (model_directory a @ gen_param_str a @ ''/''))])"
  by (simp add: generate_model_with_parameters_def Let_def and_then_simps split: sum.splits)

lemma str_int_not_z: "''-z'' \<noteq> str_int i"
proof
  assume eq: "''-z'' = str_int i"
  have "CHR ''z'' \<notin> set (str_nat n)" for n using str_nat_digits [of n] by auto
  then have "CHR ''z'' \<notin> set (str_int i)" by (simp add: str_int_def)
  then show False by (simp add: eq [symmetric])
qed

lemma z_in_params: "''-z'' \<in> set (mirt_train_params a (d @ ''/'')) \<longleftrightarrow> time a"
proof -
  have f: "''-z'' \<noteq> model_directory a @ ''train.responses''"
  proof
    assume "''-z'' = model_directory a @ ''train.responses''"
    then have "length ''-z'' = length (model_directory a @ ''train.responses'')"
      by (rule arg_cong)
    then show False by simp
  qed
  have o: "''-z'' \<noteq> d @ ''/''"
  proof
    assume "''-z'' = d @ ''/''"
    then have "last ''-z'' = last (d @ ''/'')" by (rule arg_cong)
    then show False by simp
  qed
  have mem: "x \<in> set (mirt_train_params a out) \<longleftrightarrow>
      x = ''-a'' \<or> x = str_int (abilities a) \<or> x = ''-w'' \<or> x = str_int (workers a)
      \<or> x = ''-n'' \<or> x = str_int (num_epochs a) \<or> x = ''-f''
      \<or> x = model_directory a @ ''train.responses'' \<or> x = ''-o'' \<or> x = out
      \<or> (time a \<and> x = ''-z'')" for x out
    by (cases "time a") (simp_all add: mirt_train_params_def)
  have l: "''-z'' \<noteq> ''-a''" "''-z'' \<noteq> ''-w''" "''-z'' \<noteq> ''-n''" "''-z'' \<noteq> ''-f''"
    "''-z'' \<noteq> ''-o''"
    by simp_all
  show ?thesis
    using mem [of "''-z''" "d @ ''/''"] l f o str_int_not_z [of "abilities a"]
      str_int_not_z [of "workers a"] str_int_not_z [of "num_epochs a"]
    by blast
qed
lemma example_arguments_values [simp]:
  "abilities example_arguments = 1" "workers example_arguments = 1"
  "num_epochs example_arguments = 100" "\<not> time example_arguments"
  "datetime example_arguments = ''2014-05-06 07:08:09.123456''"
  by (simp_all add: example_arguments_def default_namespace_def namespace.defs arguments.defs
      example_now_def)

lemma str_int_examples [simp]: "str_int 1 = ''1''" "str_int 100 = ''100''"
  by (simp_all add: str_int_def str_nat.simps digit_char_def)

text \<open>
  What the trainer is given, whenever it is invoked: \<^verbatim>\<open>-a\<close>, \<^verbatim>\<open>-w\<close> and \<^verbatim>\<open>-n\<close> with the
  three counts in decimal, \<^verbatim>\<open>-f\<close> with \<^verbatim>\<open>model_directory + 'train.responses'\<close>, \<^verbatim>\<open>-o\<close>
  with the artifact directory, and \<^verbatim>\<open>-z\<close> exactly in time mode.
\<close>

lemma trainer_parameters:
  "(\<forall>ps. Run_programmatically ps \<in> set (events (generate_model_with_parameters env a w)) \<longrightarrow>
       ps = [''-a'', str_int (abilities a),
             ''-w'', str_int (workers a),
             ''-n'', str_int (num_epochs a),
             ''-f'', model_directory a @ ''train.responses'',
             ''-o'', model_directory a @ gen_param_str a @ ''/'']
            @ (if time a then [''-z''] else [])
       \<and> (''-z'' \<in> set ps \<longleftrightarrow> time a))
   \<and> (fst (mkdir_p env (Path_str (model_directory a @ gen_param_str a @ ''/'')) w) = Inr () \<longrightarrow>
        (\<exists>ps. Run_programmatically ps \<in> set (events (generate_model_with_parameters env a w))))
   \<and> (\<forall>d. model_directory a = d @ ''/'' \<longrightarrow>
        model_directory a @ ''train.responses'' = d @ ''/train.responses'')"
proof (intro conjI allI impI)
  fix ps
  assume "Run_programmatically ps \<in> set (events (generate_model_with_parameters env a w))"
  then have ps: "ps = mirt_train_params a (model_directory a @ gen_param_str a @ ''/'')"
    by (auto simp: generate_model_events split: sum.splits)
  then show "ps = [''-a'', str_int (abilities a),
             ''-w'', str_int (workers a),
             ''-n'', str_int (num_epochs a),
             ''-f'', model_directory a @ ''train.responses'',
             ''-o'', model_directory a @ gen_param_str a @ ''/'']
            @ (if time a then [''-z''] else [])"
    by (simp add: mirt_train_params_def)
  show "''-z'' \<in> set ps \<longleftrightarrow> time a"
    using z_in_params [of a "model_directory a @ gen_param_str a"] ps by simp
next
  assume "fst (mkdir_p env (Path_str (model_directory a @ gen_param_str a @ ''/'')) w) = Inr ()"
  then show "\<exists>ps. Run_programmatically ps \<in> set (events (generate_model_with_parameters env a w))"
    by (simp add: generate_model_events)
next
  fix d assume "model_directory a = d @ ''/''"
  then show "model_directory a @ ''train.responses'' = d @ ''/train.responses''" by simp
qed

text \<open>
  C9: the claim does not hold of the script. The training path is meant to be the file
  \<^verbatim>\<open>train.responses\<close> in the model directory (the option's help reads "The directory to
  write models and other output"), but the script joins the two strings without a
  separator. With \<^verbatim>\<open>model_directory = '/tmp/m'\<close> and otherwise default options the trainer
  is told to read \<^verbatim>\<open>/tmp/mtrain.responses\<close>, and \<^verbatim>\<open>/tmp/m/train.responses\<close> is nowhere in
  its arguments; the artifact directory it is given is outside \<^verbatim>\<open>/tmp/m\<close> as well.
\<close>

theorem train_path_without_slash:
  "events (generate_model_with_parameters (example_env default_namespace [])
      (example_arguments\<lparr>model_directory := ''/tmp/m''\<rparr>) empty_world) =
     [Mkdir_p (Path_str ''/tmp/m1_no_time_2014-05-06 07:08:09.123456/''),
      Run_programmatically
        [''-a'', ''1'', ''-w'', ''1'', ''-n'', ''100'',
         ''-f'', ''/tmp/mtrain.responses'',
         ''-o'', ''/tmp/m1_no_time_2014-05-06 07:08:09.123456/'']]
   \<and> ''/tmp/m'' @ ''/train.responses''
       \<notin> set (mirt_train_params (example_arguments\<lparr>model_directory := ''/tmp/m''\<rparr>)
                ''/tmp/m1_no_time_2014-05-06 07:08:09.123456/'')"
  by (simp add: generate_model_events mirt_train_params_def gen_param_str_def
      example_env_def stub_mkdir_p_def)




subsection \<open>The train stage\<close>

lemma train_stage_split:
  "train_stage env a = and_then (train_stage_until_trained env a) (\<lambda>_. save_model env a)"
  by (simp add: train_stage_def train_stage_until_trained_def and_then_assoc)

lemma until_trained_events:
  "prefix (events (train_stage_until_trained env a w)) (take 5 (spec_train_steps a name))
   \<and> (outcome (train_stage_until_trained env a w) = Inr () \<longrightarrow>
        events (train_stage_until_trained env a w) = take 5 (spec_train_steps a name))"
  by (simp add: train_stage_until_trained_def make_necessary_directories_def Let_def
      generate_model_with_parameters_def and_then_simps spec_train_steps_def
      split: sum.splits)

lemma get_latest_path:
  assumes "outcome (get_latest_parameter_file_name env a w) = Inr src"
  shows "\<exists>name. src = model_directory a @ gen_param_str a @ ''/'' @ name"
  using assms by (auto simp: get_latest_outcome split: sum.splits if_splits)

lemma save_model_steps:
  "\<exists>name. prefix (events (save_model env a w)) (drop 5 (spec_train_steps a name))
     \<and> (outcome (save_model env a w) = Inr () \<longrightarrow>
          events (save_model env a w) = drop 5 (spec_train_steps a name)
          \<and> (\<exists>bytes. files (final (save_model env a w))
                          (file_id (final (save_model env a w))
                             (model_directory a @ gen_param_str a @ ''/'' @ name)) = Some bytes
                      \<and> files (final (save_model env a w))
                          (file_id (final (save_model env a w)) (model a)) = Some bytes))"
proof (cases "outcome (get_latest_parameter_file_name env a w)")
  case (Inl e)
  then have ev: "events (save_model env a w) = [Listdir (model_directory a @ gen_param_str a @ ''/'')]"
    by (simp add: save_model_events)
  have "outcome (save_model env a w) \<noteq> Inr ()"
    using Inl by (simp add: save_model_def and_then_simps)
  with ev show ?thesis by (simp add: spec_train_steps_def)
next
  case (Inr src)
  then obtain name where src: "src = model_directory a @ gen_param_str a @ ''/'' @ name"
    using get_latest_path by blast
  have ev: "events (save_model env a w) = drop 5 (spec_train_steps a name)"
    using Inr src by (simp add: save_model_events spec_train_steps_def)
  have "\<exists>bytes. files (final (save_model env a w)) (file_id (final (save_model env a w)) src)
                        = Some bytes
                      \<and> files (final (save_model env a w))
                          (file_id (final (save_model env a w)) (model a)) = Some bytes"
    if "outcome (save_model env a w) = Inr ()"
  proof -
    from save_model_effect [OF that] Inr obtain bytes where
      b: "files w (file_id w src) = Some bytes"
      and n: "file_id w src \<noteq> file_id w (model a)"
      and f: "final (save_model env a w) = w\<lparr>files := (files w)(file_id w (model a) \<mapsto> bytes)\<rparr>"
      by auto
    show ?thesis using b n by (intro exI [of _ bytes]) (simp add: f)
  qed
  with ev src show ?thesis by (intro exI [of _ name]) simp
qed

lemma train_stage_steps:
  "\<exists>name. prefix (events (train_stage env a w)) (spec_train_steps a name)
     \<and> (outcome (train_stage env a w) = Inr () \<longrightarrow>
          events (train_stage env a w) = spec_train_steps a name
          \<and> (\<exists>bytes. files (final (train_stage env a w))
                          (file_id (final (train_stage env a w))
                             (model_directory a @ gen_param_str a @ ''/'' @ name)) = Some bytes
                      \<and> files (final (train_stage env a w))
                          (file_id (final (train_stage env a w)) (model a)) = Some bytes))"
proof (cases "outcome (train_stage_until_trained env a w)")
  case (Inl e)
  have "prefix (events (train_stage_until_trained env a w)) (take 5 (spec_train_steps a []))"
    using until_trained_events by blast
  then have "prefix (events (train_stage_until_trained env a w)) (spec_train_steps a [])"
    using take_is_prefix prefix_order.trans by blast
  with Inl show ?thesis
    by (intro exI [of _ "[]"]) (simp add: train_stage_split and_then_simps)
next
  case (Inr u)
  let ?w = "final (train_stage_until_trained env a w)"
  obtain name where p: "prefix (events (save_model env a ?w)) (drop 5 (spec_train_steps a name))"
    and s: "outcome (save_model env a ?w) = Inr () \<longrightarrow>
          events (save_model env a ?w) = drop 5 (spec_train_steps a name)
          \<and> (\<exists>bytes. files (final (save_model env a ?w))
                          (file_id (final (save_model env a ?w))
                             (model_directory a @ gen_param_str a @ ''/'' @ name)) = Some bytes
                      \<and> files (final (save_model env a ?w))
                          (file_id (final (save_model env a ?w)) (model a)) = Some bytes)"
    using save_model_steps [of env a ?w] by blast
  have e5: "events (train_stage_until_trained env a w) = take 5 (spec_train_steps a name)"
    using until_trained_events [of env a w name] Inr by simp
  have ev: "events (train_stage env a w) = take 5 (spec_train_steps a name) @ events (save_model env a ?w)"
    using Inr e5 by (simp add: train_stage_split and_then_simps)
  have out: "outcome (train_stage env a w) = outcome (save_model env a ?w)"
    and fin: "final (train_stage env a w) = final (save_model env a ?w)"
    using Inr by (simp_all add: train_stage_split and_then_simps)
  have "prefix (take 5 (spec_train_steps a name) @ events (save_model env a ?w))
          (take 5 (spec_train_steps a name) @ drop 5 (spec_train_steps a name))"
    using p by (simp only: same_prefix_prefix)
  then have pre: "prefix (events (train_stage env a w)) (spec_train_steps a name)"
    by (simp only: ev append_take_drop_id)
  have full: "events (train_stage env a w) = spec_train_steps a name"
    if "outcome (save_model env a ?w) = Inr ()"
  proof -
    from s that have "events (save_model env a ?w) = drop 5 (spec_train_steps a name)" by blast
    then show ?thesis by (simp only: ev append_take_drop_id)
  qed
  show ?thesis
    using pre full s by (intro exI [of _ name]) (simp add: out fin)
qed

lemma run_with_arguments_events_train:
  assumes "train a"
    and "outcome ((if generate a then generate_stage env a else returns ()) w) = Inr ()"
  shows "\<exists>rest. events (run_with_arguments env a w) =
           events ((if generate a then generate_stage env a else returns ()) w)
           @ events (train_stage env a (final ((if generate a then generate_stage env a else returns ()) w)))
           @ rest"
  using assms by (simp add: run_with_arguments_def Let_def and_then_simps split: sum.splits)

lemma example_flags [simp]:
  "\<not> generate example_arguments" "\<not> train example_arguments"
  "\<not> visualize example_arguments" "\<not> test example_arguments"
  by (simp_all add: example_arguments_def default_namespace_def namespace.defs arguments.defs)

lemma example_train_fields [simp]:
  "model_directory (example_arguments\<lparr>train := True\<rparr>) = ''./sample_data/models/''"
  "model (example_arguments\<lparr>train := True\<rparr>) = ''./sample_data/models/model.json''"
  "gen_param_str (example_arguments\<lparr>train := True\<rparr>) = ''1_no_time_2014-05-06 07:08:09.123456''"
  "train (example_arguments\<lparr>train := True\<rparr>)"
  "\<not> generate (example_arguments\<lparr>train := True\<rparr>)"
  by (simp_all add: gen_param_str_def)

lemma mirt_train_params_example [simp]:
  "mirt_train_params (example_arguments\<lparr>train := True\<rparr>) out =
     [''-a'', ''1'', ''-w'', ''1'', ''-n'', ''100'',
      ''-f'', ''./sample_data/models/train.responses'', ''-o'', out]"
  by (simp add: mirt_train_params_def)


lemma save_model_cases:
  "save_model env a w =
     (case os_listdir env (model_directory a @ gen_param_str a @ ''/'') w of
        Inl e \<Rightarrow> \<lparr>outcome = Inl e, final = w,
                   events = [Listdir (model_directory a @ gen_param_str a @ ''/'')]\<rparr>
      | Inr listing \<Rightarrow>
          if listing = []
          then \<lparr>outcome = Inl IndexError, final = w,
                events = [Listdir (model_directory a @ gen_param_str a @ ''/'')]\<rparr>
          else \<lparr>outcome = outcome (shutil_copyfile env
                    (model_directory a @ gen_param_str a @ ''/'' @ last (sort_key sort_key_fn listing))
                    (model a) w),
                final = final (shutil_copyfile env
                    (model_directory a @ gen_param_str a @ ''/'' @ last (sort_key sort_key_fn listing))
                    (model a) w),
                events = drop 5 (spec_train_steps a (last (sort_key sort_key_fn listing)))\<rparr>)"
  by (rule run_eqI)
    (simp_all add: save_model_def get_latest_parameter_file_name_def index_last_def Let_def
      and_then_simps spec_train_steps_def sort_key_eq_Nil split: sum.splits list.splits)

lemma until_trained_cases:
  "train_stage_until_trained env a w =
     (case mkdir_p env (Path_list [model_directory a @ ''rocs/'']) w of
        (Inl e, w1) \<Rightarrow> \<lparr>outcome = Inl e, final = w1, events = take 1 (spec_train_steps a [])\<rparr>
      | (Inr u1, w1) \<Rightarrow>
     (case sep_into_train_and_test env a w1 of
        (Inl e, w2) \<Rightarrow> \<lparr>outcome = Inl e, final = w2, events = take 2 (spec_train_steps a [])\<rparr>
      | (Inr u2, w2) \<Rightarrow>
     (case mkdir_p env (Path_str (model_directory a @ gen_param_str a @ ''/'')) w2 of
        (Inl e, w3) \<Rightarrow> \<lparr>outcome = Inl e, final = w3, events = take 4 (spec_train_steps a [])\<rparr>
      | (Inr u3, w3) \<Rightarrow>
     (case run_programmatically env
             (mirt_train_params a (model_directory a @ gen_param_str a @ ''/'')) w3 of
        (r, w4) \<Rightarrow> \<lparr>outcome = r, final = w4, events = take 5 (spec_train_steps a [])\<rparr>))))"
  by (simp add: train_stage_until_trained_def make_necessary_directories_def
      generate_model_with_parameters_def Let_def and_then_def call_def emit_def
      spec_train_steps_def split: prod.splits sum.splits)

lemma sort_key_fn_abs: "sort_key_fn = (\<lambda>fname. last (split CHR ''_'' fname))"
  by (rule ext) (simp add: sort_key_fn_def)

lemma train_stage_refines: "train_stage env a w = spec_train_stage env a w"
proof -
  have "train_stage env a w
      = and_then (train_stage_until_trained env a) (\<lambda>_. save_model env a) w"
    by (simp only: train_stage_split)
  also have "\<dots> = spec_train_stage env a w"
    by (simp add: and_then_def Let_def until_trained_cases save_model_cases spec_train_stage_def
        spec_train_steps_def sort_key_fn_abs split: prod.splits sum.splits)
  finally show ?thesis .
qed

lemma run_with_arguments_train:
  "train a \<Longrightarrow>
   run_with_arguments env a =
     and_then (if generate a then generate_stage env a else returns ())
       (\<lambda>_. and_then (train_stage env a)
          (\<lambda>_. and_then (if visualize a then visualize_stage env (gen_param_str a) a else returns ())
             (\<lambda>_. if test a then test_stage env a else returns ())))"
  by (simp add: run_with_arguments_def Let_def)

lemma run_with_arguments_train_only:
  "train a \<Longrightarrow> \<not> generate a \<Longrightarrow> \<not> visualize a \<Longrightarrow> \<not> test a \<Longrightarrow>
   run_with_arguments env a w = train_stage env a w"
  by (rule run_eqI) (simp_all add: run_with_arguments_def Let_def and_then_simps split: sum.splits)


lemma train_stage_example:
  "outcome (train_stage training_env (example_arguments\<lparr>train := True\<rparr>) empty_world) = Inr ()"
  "events (train_stage training_env (example_arguments\<lparr>train := True\<rparr>) empty_world) =
     spec_train_steps (example_arguments\<lparr>train := True\<rparr>) ''snap_0001''"
  "files (final (train_stage training_env (example_arguments\<lparr>train := True\<rparr>) empty_world))
     (collapse_slashes ''./sample_data/models/model.json'') = Some ''parameters''"
  "dirs (final (train_stage training_env (example_arguments\<lparr>train := True\<rparr>) empty_world))
     = {''./sample_data/models/rocs/'',
        ''./sample_data/models/1_no_time_2014-05-06 07:08:09.123456/''}"
  by (simp_all add: train_stage_def make_necessary_directories_def
      generate_model_with_parameters_def save_model_def get_latest_parameter_file_name_def
      shutil_copyfile_def index_last_def Let_def and_then_simps spec_train_steps_def
      training_env_def example_env_def stub_mkdir_p_def stub_trainer_def stub_listdir_def
      succeed_def empty_world_def sort_key_fn_def insert_commute)

text \<open>
  C7: the train stage is the specification's train stage, in outcome, final store and
  events, from every store and for all collaborators: the report directory is ensured,
  then the dataset is split, then the artifact directory is created, then the trainer is
  invoked, then the artifact directory is listed to resolve the artifact, then the
  artifact is copied to the model path; each step works on the store the previous one
  left, and a failing step ends the stage. In a run with \<^verbatim>\<open>train\<close> selected the stage runs
  between the generate and the visualize stage, and a run with \<^verbatim>\<open>train\<close> alone is the
  stage. When every collaborator returns normally and the listing is not empty, the stage
  ends with the copy of the last sorted name, made in the store the trainer left, having
  performed the whole list. In general the events are an initial part of the list; a
  stage that returns normally has performed all of it, and the model path then holds the
  bytes of the selected artifact, whatever was there before. The trainer is invoked only
  after the creation of the artifact directory has returned normally.
\<close>

theorem train_stage_performs_steps_in_order:
  "train_stage env a w = spec_train_stage env a w
   \<and> (train a \<longrightarrow>
        run_with_arguments env a =
          and_then (if generate a then generate_stage env a else returns ())
            (\<lambda>_. and_then (spec_train_stage env a)
               (\<lambda>_. and_then (if visualize a then visualize_stage env (gen_param_str a) a
                              else returns ())
                  (\<lambda>_. if test a then test_stage env a else returns ()))))
   \<and> (train a \<longrightarrow> \<not> generate a \<longrightarrow> \<not> visualize a \<longrightarrow> \<not> test a \<longrightarrow>
        run_with_arguments env a w = spec_train_stage env a w)
   \<and> (\<forall>w1 w2 w3 w4 listing.
        mkdir_p env (Path_list [model_directory a @ ''rocs/'']) w = (Inr (), w1) \<longrightarrow>
        sep_into_train_and_test env a w1 = (Inr (), w2) \<longrightarrow>
        mkdir_p env (Path_str (model_directory a @ gen_param_str a @ ''/'')) w2 = (Inr (), w3) \<longrightarrow>
        run_programmatically env
          (mirt_train_params a (model_directory a @ gen_param_str a @ ''/'')) w3 = (Inr (), w4) \<longrightarrow>
        os_listdir env (model_directory a @ gen_param_str a @ ''/'') w4 = Inr listing \<longrightarrow>
        listing \<noteq> [] \<longrightarrow>
        train_stage env a w =
          \<lparr>outcome = outcome (shutil_copyfile env
               (model_directory a @ gen_param_str a @ ''/'' @ last (sort_key sort_key_fn listing))
               (model a) w4),
           final = final (shutil_copyfile env
               (model_directory a @ gen_param_str a @ ''/'' @ last (sort_key sort_key_fn listing))
               (model a) w4),
           events = spec_train_steps a (last (sort_key sort_key_fn listing))\<rparr>)
   \<and> (\<exists>name. prefix (events (train_stage env a w)) (spec_train_steps a name)
      \<and> (outcome (train_stage env a w) = Inr () \<longrightarrow>
           events (train_stage env a w) = spec_train_steps a name
           \<and> (\<exists>bytes. files (final (train_stage env a w))
                           (file_id (final (train_stage env a w))
                              (model_directory a @ gen_param_str a @ ''/'' @ name)) = Some bytes
                       \<and> files (final (train_stage env a w))
                           (file_id (final (train_stage env a w)) (model a)) = Some bytes)))
   \<and> (train a \<longrightarrow> outcome ((if generate a then generate_stage env a else returns ()) w) = Inr () \<longrightarrow>
        (\<exists>rest. events (run_with_arguments env a w) =
           events ((if generate a then generate_stage env a else returns ()) w)
           @ events (train_stage env a
               (final ((if generate a then generate_stage env a else returns ()) w)))
           @ rest))
   \<and> (\<forall>ps w'. Run_programmatically ps \<in> set (events (generate_model_with_parameters env a w')) \<longrightarrow>
        fst (mkdir_p env (Path_str (model_directory a @ gen_param_str a @ ''/'')) w') = Inr ())"
proof (intro conjI)
  show "train_stage env a w = spec_train_stage env a w"
    by (rule train_stage_refines)
  have ts: "train_stage env a = spec_train_stage env a"
    by (rule ext) (rule train_stage_refines)
  show "train a \<longrightarrow>
        run_with_arguments env a =
          and_then (if generate a then generate_stage env a else returns ())
            (\<lambda>_. and_then (spec_train_stage env a)
               (\<lambda>_. and_then (if visualize a then visualize_stage env (gen_param_str a) a
                              else returns ())
                  (\<lambda>_. if test a then test_stage env a else returns ())))"
    using run_with_arguments_train [of a env] by (simp only: ts) blast
  show "train a \<longrightarrow> \<not> generate a \<longrightarrow> \<not> visualize a \<longrightarrow> \<not> test a \<longrightarrow>
        run_with_arguments env a w = spec_train_stage env a w"
    using run_with_arguments_train_only [of a env w] by (simp only: ts) blast
  show "\<forall>w1 w2 w3 w4 listing.
        mkdir_p env (Path_list [model_directory a @ ''rocs/'']) w = (Inr (), w1) \<longrightarrow>
        sep_into_train_and_test env a w1 = (Inr (), w2) \<longrightarrow>
        mkdir_p env (Path_str (model_directory a @ gen_param_str a @ ''/'')) w2 = (Inr (), w3) \<longrightarrow>
        run_programmatically env
          (mirt_train_params a (model_directory a @ gen_param_str a @ ''/'')) w3 = (Inr (), w4) \<longrightarrow>
        os_listdir env (model_directory a @ gen_param_str a @ ''/'') w4 = Inr listing \<longrightarrow>
        listing \<noteq> [] \<longrightarrow>
        train_stage env a w =
          \<lparr>outcome = outcome (shutil_copyfile env
               (model_directory a @ gen_param_str a @ ''/'' @ last (sort_key sort_key_fn listing))
               (model a) w4),
           final = final (shutil_copyfile env
               (model_directory a @ gen_param_str a @ ''/'' @ last (sort_key sort_key_fn listing))
               (model a) w4),
           events = spec_train_steps a (last (sort_key sort_key_fn listing))\<rparr>"
    by (simp add: train_stage_refines spec_train_stage_def Let_def sort_key_fn_abs)
  show "\<exists>name. prefix (events (train_stage env a w)) (spec_train_steps a name)
      \<and> (outcome (train_stage env a w) = Inr () \<longrightarrow>
           events (train_stage env a w) = spec_train_steps a name
           \<and> (\<exists>bytes. files (final (train_stage env a w))
                           (file_id (final (train_stage env a w))
                              (model_directory a @ gen_param_str a @ ''/'' @ name)) = Some bytes
                       \<and> files (final (train_stage env a w))
                           (file_id (final (train_stage env a w)) (model a)) = Some bytes))"
    by (rule train_stage_steps)
  show "train a \<longrightarrow> outcome ((if generate a then generate_stage env a else returns ()) w) = Inr () \<longrightarrow>
        (\<exists>rest. events (run_with_arguments env a w) =
           events ((if generate a then generate_stage env a else returns ()) w)
           @ events (train_stage env a
               (final ((if generate a then generate_stage env a else returns ()) w)))
           @ rest)"
    using run_with_arguments_events_train [of a env w] by blast
  show "\<forall>ps w'. Run_programmatically ps \<in> set (events (generate_model_with_parameters env a w')) \<longrightarrow>
        fst (mkdir_p env (Path_str (model_directory a @ gen_param_str a @ ''/'')) w') = Inr ()"
    by (auto simp: generate_model_events split: sum.splits)
qed

theorem train_stage_performs_steps_in_order_witness:
  "train (example_arguments\<lparr>train := True\<rparr>)
   \<and> \<not> generate (example_arguments\<lparr>train := True\<rparr>)
   \<and> \<not> visualize (example_arguments\<lparr>train := True\<rparr>)
   \<and> \<not> test (example_arguments\<lparr>train := True\<rparr>)
   \<and> run_with_arguments training_env (example_arguments\<lparr>train := True\<rparr>) empty_world
       = spec_train_stage training_env (example_arguments\<lparr>train := True\<rparr>) empty_world
   \<and> outcome (run_with_arguments training_env (example_arguments\<lparr>train := True\<rparr>) empty_world)
       = Inr ()
   \<and> events (run_with_arguments training_env (example_arguments\<lparr>train := True\<rparr>) empty_world)
       = spec_train_steps (example_arguments\<lparr>train := True\<rparr>) ''snap_0001''
   \<and> files (final (run_with_arguments training_env (example_arguments\<lparr>train := True\<rparr>)
         empty_world)) (collapse_slashes ''./sample_data/models/model.json'') = Some ''parameters''
   \<and> dirs (final (run_with_arguments training_env (example_arguments\<lparr>train := True\<rparr>)
         empty_world))
       = {''./sample_data/models/rocs/'',
          ''./sample_data/models/1_no_time_2014-05-06 07:08:09.123456/''}"
proof -
  let ?a = "example_arguments\<lparr>train := True\<rparr>"
  note t = train_stage_performs_steps_in_order [of training_env ?a empty_world]
  have f: "train ?a" "\<not> generate ?a" "\<not> visualize ?a" "\<not> test ?a" by simp_all
  from t have ts: "train_stage training_env ?a empty_world
      = spec_train_stage training_env ?a empty_world"
    by (rule conjunct1)
  from t f have r: "run_with_arguments training_env ?a empty_world
      = spec_train_stage training_env ?a empty_world"
    by blast
  then have rt: "run_with_arguments training_env ?a empty_world
      = train_stage training_env ?a empty_world"
    by (simp only: ts)
  have o: "outcome (run_with_arguments training_env ?a empty_world) = Inr ()"
    by (simp only: rt train_stage_example)
  have e: "events (run_with_arguments training_env ?a empty_world)
      = spec_train_steps ?a ''snap_0001''"
    by (simp only: rt train_stage_example)
  have m: "files (final (run_with_arguments training_env ?a empty_world))
      (collapse_slashes ''./sample_data/models/model.json'') = Some ''parameters''"
    by (simp only: rt train_stage_example)
  have d: "dirs (final (run_with_arguments training_env ?a empty_world))
       = {''./sample_data/models/rocs/'',
          ''./sample_data/models/1_no_time_2014-05-06 07:08:09.123456/''}"
    by (simp only: rt train_stage_example)
  from f r o e m d show ?thesis by blast
qed

text \<open>
  C10: whenever the trainer is invoked, its parameter after \<^verbatim>\<open>-o\<close> is
  \<^verbatim>\<open>model_directory + gen_param_str(arguments) + '/'\<close>, and the directory that
  \<^verbatim>\<open>get_latest_parameter_file_name\<close> lists is the same string; within one train stage the
  directory listed is the one the trainer of that stage was given.
\<close>

theorem trainer_and_resolver_same_directory:
  "(\<forall>ps. Run_programmatically ps \<in> set (events (generate_model_with_parameters env a w)) \<longrightarrow>
        ps ! 8 = ''-o'' \<and> ps ! 9 = model_directory a @ gen_param_str a @ ''/'')
   \<and> events (get_latest_parameter_file_name env a w') =
        [Listdir (model_directory a @ gen_param_str a @ ''/'')]
   \<and> (\<forall>ps d. Run_programmatically ps \<in> set (events (train_stage env a w)) \<longrightarrow>
          Listdir d \<in> set (events (train_stage env a w)) \<longrightarrow>
          ps ! 8 = ''-o'' \<and> ps ! 9 = d \<and> d = model_directory a @ gen_param_str a @ ''/'')"
proof (intro conjI allI impI)
  fix ps
  assume "Run_programmatically ps \<in> set (events (generate_model_with_parameters env a w))"
  then have "ps = mirt_train_params a (model_directory a @ gen_param_str a @ ''/'')"
    by (auto simp: generate_model_events split: sum.splits)
  then show "ps ! 8 = ''-o''" and "ps ! 9 = model_directory a @ gen_param_str a @ ''/''"
    by (simp_all add: mirt_train_params_def)
next
  show "events (get_latest_parameter_file_name env a w') =
        [Listdir (model_directory a @ gen_param_str a @ ''/'')]"
    by (rule get_latest_events)
next
  fix ps d
  assume r: "Run_programmatically ps \<in> set (events (train_stage env a w))"
    and l: "Listdir d \<in> set (events (train_stage env a w))"
  obtain name where "prefix (events (train_stage env a w)) (spec_train_steps a name)"
    using train_stage_steps [of env a w] by blast
  then have sub: "set (events (train_stage env a w)) \<subseteq> set (spec_train_steps a name)"
    by (rule set_mono_prefix)
  from r sub have "Run_programmatically ps \<in> set (spec_train_steps a name)" by blast
  then have ps: "ps = mirt_train_params a (model_directory a @ gen_param_str a @ ''/'')"
    by (simp add: spec_train_steps_def)
  from l sub have "Listdir d \<in> set (spec_train_steps a name)" by blast
  then have d: "d = model_directory a @ gen_param_str a @ ''/''"
    by (simp add: spec_train_steps_def)
  show "ps ! 8 = ''-o''" using ps by (simp add: mirt_train_params_def)
  show "ps ! 9 = d" using ps d by (simp add: mirt_train_params_def)
  show "d = model_directory a @ gen_param_str a @ ''/''" by (rule d)
qed

theorem trainer_and_resolver_same_directory_witness:
  "Run_programmatically
      [''-a'', ''1'', ''-w'', ''1'', ''-n'', ''100'', ''-f'', ''./sample_data/models/train.responses'',
       ''-o'', ''./sample_data/models/1_no_time_2014-05-06 07:08:09.123456/'']
     \<in> set (events (train_stage training_env (example_arguments\<lparr>train := True\<rparr>) empty_world))
   \<and> Listdir ''./sample_data/models/1_no_time_2014-05-06 07:08:09.123456/''
     \<in> set (events (train_stage training_env (example_arguments\<lparr>train := True\<rparr>) empty_world))
   \<and> [''-a'', ''1'', ''-w'', ''1'', ''-n'', ''100'', ''-f'', ''./sample_data/models/train.responses'',
       ''-o'', ''./sample_data/models/1_no_time_2014-05-06 07:08:09.123456/''] ! 9
      = ''./sample_data/models/1_no_time_2014-05-06 07:08:09.123456/''"
proof -
  let ?a = "example_arguments\<lparr>train := True\<rparr>"
  let ?ps = "[''-a'', ''1'', ''-w'', ''1'', ''-n'', ''100'', ''-f'',
       ''./sample_data/models/train.responses'',
       ''-o'', ''./sample_data/models/1_no_time_2014-05-06 07:08:09.123456/'']"
  let ?d = "''./sample_data/models/1_no_time_2014-05-06 07:08:09.123456/''"
  have r: "Run_programmatically ?ps \<in> set (events (train_stage training_env ?a empty_world))"
    by (simp add: train_stage_example spec_train_steps_def)
  have l: "Listdir ?d \<in> set (events (train_stage training_env ?a empty_world))"
    by (simp add: train_stage_example spec_train_steps_def)
  from trainer_and_resolver_same_directory [of training_env ?a empty_world empty_world] r l
  have "?ps ! 9 = ?d" by blast
  with r l show ?thesis by blast
qed

subsection \<open>Visualize and test\<close>

lemma generate_stage_no_test: "Adaptive_pretest_main m \<notin> set (events (generate_stage env a w))"
  by (simp add: generate_stage_def and_then_simps split: sum.splits)

lemma visualize_stage_no_test: "Adaptive_pretest_main m \<notin> set (events (visualize_stage env p a w))"
  by (simp add: visualize_stage_def generate_roc_curve_from_model_def Let_def and_then_simps
      split: sum.splits)

lemma train_stage_no_test: "Adaptive_pretest_main m \<notin> set (events (train_stage env a w))"
proof -
  obtain name where "prefix (events (train_stage env a w)) (spec_train_steps a name)"
    using train_stage_steps [of env a w] by blast
  then have "set (events (train_stage env a w)) \<subseteq> set (spec_train_steps a name)"
    by (rule set_mono_prefix)
  moreover have "Adaptive_pretest_main m \<notin> set (spec_train_steps a name)"
    by (simp add: spec_train_steps_def)
  ultimately show ?thesis by blast
qed

lemma stages_before_visualize_no_test:
  "Adaptive_pretest_main m \<notin> set (events (stages_before_visualize env a w))"
  by (simp add: stages_before_visualize_def and_then_simps generate_stage_no_test
      train_stage_no_test split: sum.splits)

lemma run_with_arguments_split:
  "run_with_arguments env a =
     and_then (stages_before_visualize env a)
       (\<lambda>_. and_then (if visualize a then visualize_stage env (gen_param_str a) a else returns ())
          (\<lambda>_. if test a then test_stage env a else returns ()))"
  by (simp add: run_with_arguments_def stages_before_visualize_def Let_def and_then_assoc)

lemma test_stage_events [simp]: "events (test_stage env a w) = [Adaptive_pretest_main (model a)]"
  by (simp add: test_stage_def)

text \<open>
  C3 (as the script behaves): with both \<^verbatim>\<open>visualize\<close> and \<^verbatim>\<open>test\<close> selected, the test
  stage is attempted exactly when everything before it, the visualize stage included,
  returned normally. A failure in the visualize stage is the failure of the run, and the
  adaptive test is not called.
\<close>

theorem test_attempted_only_after_visualize_succeeds:
  assumes "visualize a" and "test a"
  shows "((\<exists>m. Adaptive_pretest_main m \<in> set (events (run_with_arguments env a w))) \<longleftrightarrow>
            outcome (stages_before_visualize env a w) = Inr ()
          \<and> outcome (visualize_stage env (gen_param_str a) a
                (final (stages_before_visualize env a w))) = Inr ())
       \<and> (outcome (stages_before_visualize env a w) = Inr () \<longrightarrow>
            (\<forall>e. outcome (visualize_stage env (gen_param_str a) a
                     (final (stages_before_visualize env a w))) = Inl e \<longrightarrow>
                 outcome (run_with_arguments env a w) = Inl e
               \<and> (\<forall>m. Adaptive_pretest_main m \<notin> set (events (run_with_arguments env a w)))))"
  using assms
  by (auto simp: run_with_arguments_split and_then_simps stages_before_visualize_no_test
      visualize_stage_no_test split: sum.splits)

lemma example_vt_fields [simp]:
  "visualize (example_arguments\<lparr>visualize := True, test := True\<rparr>)"
  "test (example_arguments\<lparr>visualize := True, test := True\<rparr>)"
  "\<not> generate (example_arguments\<lparr>visualize := True, test := True\<rparr>)"
  "\<not> train (example_arguments\<lparr>visualize := True, test := True\<rparr>)"
  "model_directory (example_arguments\<lparr>visualize := True, test := True\<rparr>) = ''./sample_data/models/''"
  "model (example_arguments\<lparr>visualize := True, test := True\<rparr>) = ''./sample_data/models/model.json''"
  "datetime (example_arguments\<lparr>visualize := True, test := True\<rparr>) = ''2014-05-06 07:08:09.123456''"
  by simp_all

theorem test_attempted_only_after_visualize_succeeds_witness:
  "visualize (example_arguments\<lparr>visualize := True, test := True\<rparr>)
   \<and> test (example_arguments\<lparr>visualize := True, test := True\<rparr>)
   \<and> outcome (stages_before_visualize failing_visualize_env
        (example_arguments\<lparr>visualize := True, test := True\<rparr>) empty_world) = Inr ()
   \<and> outcome (visualize_stage failing_visualize_env
        (gen_param_str (example_arguments\<lparr>visualize := True, test := True\<rparr>))
        (example_arguments\<lparr>visualize := True, test := True\<rparr>)
        (final (stages_before_visualize failing_visualize_env
           (example_arguments\<lparr>visualize := True, test := True\<rparr>) empty_world)))
       = Inl (Raised ''IOError'')
   \<and> outcome (run_with_arguments failing_visualize_env
        (example_arguments\<lparr>visualize := True, test := True\<rparr>) empty_world) = Inl (Raised ''IOError'')
   \<and> Adaptive_pretest_main ''./sample_data/models/model.json''
       \<in> set (events (run_with_arguments (example_env default_namespace [])
            (example_arguments\<lparr>visualize := True, test := True\<rparr>) empty_world))"
proof -
  let ?a = "example_arguments\<lparr>visualize := True, test := True\<rparr>"
  have v: "visualize ?a" and t: "test ?a" by simp_all
  have b: "outcome (stages_before_visualize failing_visualize_env ?a empty_world) = Inr ()"
    by (simp add: stages_before_visualize_def and_then_simps)
  have f: "outcome (visualize_stage failing_visualize_env (gen_param_str ?a) ?a
        (final (stages_before_visualize failing_visualize_env ?a empty_world)))
       = Inl (Raised ''IOError'')"
    by (simp add: visualize_stage_def generate_roc_curve_from_model_def Let_def and_then_simps
        failing_visualize_env_def example_env_def fail_with_def)
  from test_attempted_only_after_visualize_succeeds [OF v t, of failing_visualize_env empty_world] b f
  have r: "outcome (run_with_arguments failing_visualize_env ?a empty_world) = Inl (Raised ''IOError'')"
    by blast
  have b': "outcome (stages_before_visualize (example_env default_namespace []) ?a empty_world) = Inr ()"
    by (simp add: stages_before_visualize_def and_then_simps)
  have f': "outcome (visualize_stage (example_env default_namespace []) (gen_param_str ?a) ?a
        (final (stages_before_visualize (example_env default_namespace []) ?a empty_world)))
       = Inr ()"
    by (simp add: visualize_stage_def generate_roc_curve_from_model_def Let_def and_then_simps
        example_env_def succeed_def)
  from test_attempted_only_after_visualize_succeeds
    [OF v t, of "example_env default_namespace []" empty_world] b' f'
  obtain m where "Adaptive_pretest_main m
       \<in> set (events (run_with_arguments (example_env default_namespace []) ?a empty_world))"
    by blast
  moreover have "events (run_with_arguments (example_env default_namespace []) ?a empty_world)
      = [Load_and_simulate_assessment ''./sample_data/models/model.json''
          ''./sample_data/models/rocs/2014-05-06 07:08:09.123456''
          ''./sample_data/models/test.responses'',
         Print ''visualizing for ./sample_data/models/model.json'',
         Show_roc [(gen_param_str ?a, [])],
         Show_exercises ''./sample_data/models/model.json'',
         Adaptive_pretest_main ''./sample_data/models/model.json'']"
    by (simp add: run_with_arguments_def visualize_stage_def generate_roc_curve_from_model_def
        test_stage_def Let_def and_then_simps example_env_def succeed_def)
  ultimately have "Adaptive_pretest_main ''./sample_data/models/model.json''
       \<in> set (events (run_with_arguments (example_env default_namespace []) ?a empty_world))"
    by simp
  with v t b f r show ?thesis by blast
qed

text \<open>
  The claim C3 fails on the script: with \<^verbatim>\<open>visualize\<close> and \<^verbatim>\<open>test\<close> selected and an
  evaluator that raises, the run ends with that exception after the one call of the
  evaluator; the adaptive test is never called.
\<close>

theorem visualize_failure_prevents_test:
  "visualize (example_arguments\<lparr>visualize := True, test := True\<rparr>)
   \<and> test (example_arguments\<lparr>visualize := True, test := True\<rparr>)
   \<and> outcome (run_with_arguments failing_visualize_env
        (example_arguments\<lparr>visualize := True, test := True\<rparr>) empty_world) = Inl (Raised ''IOError'')
   \<and> events (run_with_arguments failing_visualize_env
        (example_arguments\<lparr>visualize := True, test := True\<rparr>) empty_world) =
       [Load_and_simulate_assessment ''./sample_data/models/model.json''
          ''./sample_data/models/rocs/2014-05-06 07:08:09.123456''
          ''./sample_data/models/test.responses'']"
  by (simp add: run_with_arguments_def visualize_stage_def generate_roc_curve_from_model_def
      Let_def and_then_simps failing_visualize_env_def example_env_def fail_with_def)




end
